theory Spec2Isabelle
  imports Main "HOL-Library.AList"
begin

section \<open>Data model of \<^verbatim>\<open>AmneziaVpnService\<close>\<close>

text \<open>
  The service of \<^verbatim>\<open>AmneziaVpnService.kt\<close> is embedded as a record of its fields, its
  methods as functions on that record, and its coroutines as tasks with a program
  counter that a labelled step function advances one source statement at a time.
\<close>

datatype ProtocolState =
  UNKNOWN | CONNECTING | CONNECTED | DISCONNECTING | DISCONNECTED | RECONNECTING

text \<open>The four protocol classes \<^verbatim>\<open>getProtocol\<close> can construct.\<close>

datatype Protocol = Wireguard | Awg | OpenVpn | Cloak

type_synonym job = nat
type_synonym messenger = nat

text \<open>
  A parsed \<^verbatim>\<open>JSONObject\<close>: keys with their values. \<open>JInt\<close> is a value held as a
  \<^verbatim>\<open>java.lang.Integer\<close>, \<open>JOther r\<close> any other non-string value, with \<open>r\<close> what
  \<^verbatim>\<open>String.valueOf\<close> prints for it.
\<close>

datatype jvalue = JString string | JInt int | JOther string

type_synonym JSONObject = "(string \<times> jvalue) list"

text \<open>
  The exceptions the service tells apart. A constructor names the first branch of the
  \<^verbatim>\<open>when\<close> in \<^verbatim>\<open>connectionExceptionHandler\<close> that the exception matches and carries
  its nullable \<^verbatim>\<open>message\<close>; \<open>LoadLibraryException\<close> also carries
  \<^verbatim>\<open>cause?.message\<close>, and \<open>OtherThrowable\<close> the class name of an exception that no
  branch matches.
\<close>

datatype Throwable =
    IllegalArgumentException "string option"
  | VpnStartException "string option"
  | VpnException "string option"
  | JSONException "string option"
  | BadConfigException "string option"
  | LoadLibraryException "string option" "string option"
  | ClassCastException "string option"
  | OtherThrowable string "string option"

datatype ServiceEvent =
    STATUS ProtocolState
  | STATUS_CHANGED ProtocolState
  | ERROR string
  | STATISTICS_UPDATE

text \<open>
  What the service does to the outside, in the order it does it: messages sent to
  client messengers (with the recipients), calls into a protocol instance and their
  returns (with the coroutine that makes them), and platform calls.
\<close>

datatype effect =
    Sent "messenger list" ServiceEvent
  | Initialized Protocol
  | StartVpnCalled job Protocol
  | StartVpnReturned job
  | StopVpnCalled job Protocol
  | StopVpnReturned job
  | ReconnectVpnCalled job Protocol
  | ReconnectVpnReturned job
  | StartActivity
  | StartForeground
  | StopSelf
  | KillProcess

text \<open>
  The coroutines launched on \<^verbatim>\<open>connectionScope\<close>, as the statement each one executes
  next. \<open>Conn\<close>: the block of \<^verbatim>\<open>connectToVpn\<close> (lines 387 to 393), which captures the
  parsed config; \<open>Disc\<close>: the block of \<^verbatim>\<open>disconnect\<close> (lines 404 to 419); \<open>Recon\<close>:
  the block of \<^verbatim>\<open>reconnect\<close> (lines 430 to 432). \<^verbatim>\<open>job?.join()\<close> is two steps: the
  read of the field, and the wait for the job that was read.
\<close>

datatype task =
    ConnReadDisconnectionJob JSONObject
  | ConnJoin JSONObject job
  | ConnClearDisconnectionJob JSONObject
  | ConnGetProtocol JSONObject
  | ConnStartVpn JSONObject
  | ConnInStartVpn Protocol
  | DiscReadConnectionJob
  | DiscJoin job
  | DiscClearConnectionJob
  | DiscStopVpn
  | DiscInStopVpn Protocol
  | DiscClearProtocol
  | DiscAwaitDisconnected
  | ReconReconnectVpn
  | ReconInReconnectVpn Protocol
  | Completed

datatype PrefValue = PrefString string | PrefInt int

type_synonym Prefs = "string \<rightharpoonup> PrefValue"

text \<open>
  The fields of the service (lines 79 to 101; \<open>statisticsSendingJob\<close> is null or a
  job on \<^verbatim>\<open>mainScope\<close> with whether it is still active), then the platform state it reads and
  writes (\<open>prefs\<close>, \<open>prepared\<close>: whether \<^verbatim>\<open>VpnService.prepare\<close> returns null,
  \<open>networkListenerBound\<close>, \<open>saveLogs\<close>, \<open>vpnStateStore\<close>), then the scheduler's
  part: the coroutines of \<^verbatim>\<open>connectionScope\<close> by job number, the last value the
  collector of \<^verbatim>\<open>protocolState\<close> has handled, the error messages whose broadcast is
  launched on \<^verbatim>\<open>mainScope\<close> and has not run yet, the armed kill timers of
  \<^verbatim>\<open>stopService\<close>, whether the process was killed, an exception nothing caught, and
  the effects so far.
\<close>

record service =
  isServiceBound :: bool
  protocol :: "Protocol option"
  protocolCache :: "string \<rightharpoonup> Protocol"
  protocolState :: ProtocolState
  serverName :: "string option"
  serverIndex :: int
  connectionJob :: "job option"
  disconnectionJob :: "job option"
  statisticsSendingJob :: "bool option"
  clientMessengers :: "(messenger \<times> string option) list"
  prefs :: Prefs
  prepared :: bool
  networkListenerBound :: bool
  saveLogs :: bool
  vpnStateStore :: "ProtocolState \<times> string option \<times> int"
  jobs :: "task list"
  collected :: ProtocolState
  pendingErrors :: "string list"
  killTimers :: nat
  killed :: bool
  uncaught :: "Throwable option"
  trace :: "effect list"

text \<open>
  What the service takes from outside the file: the constructor \<^verbatim>\<open>JSONObject(String)\<close>
  of the JSON library (\<open>Inl\<close> the message of its \<^verbatim>\<open>JSONException\<close>), and the constant
  \<^verbatim>\<open>ACTIVITY_MESSENGER_NAME\<close>, which another file of the repository defines.
\<close>

record platform =
  jsonObject :: "string \<Rightarrow> string option + JSONObject"
  ACTIVITY_MESSENGER_NAME :: string

definition PREFS_CONFIG_KEY :: string where "PREFS_CONFIG_KEY = ''LAST_CONF''"
definition PREFS_SERVER_NAME :: string where "PREFS_SERVER_NAME = ''LAST_SERVER_NAME''"
definition PREFS_SERVER_INDEX :: string where "PREFS_SERVER_INDEX = ''LAST_SERVER_INDEX''"

section \<open>Strings and JSON values\<close>

text \<open>
  A template prints a null as \<^verbatim>\<open>null\<close>; \<^verbatim>\<open>Throwable.toString\<close> of an exception without
  a message is its class name.
\<close>

definition template :: "string option \<Rightarrow> string" where
  "template m = (case m of None \<Rightarrow> ''null'' | Some x \<Rightarrow> x)"

fun message :: "Throwable \<Rightarrow> string option" where
  "message (IllegalArgumentException m) = m"
| "message (VpnStartException m) = m"
| "message (VpnException m) = m"
| "message (JSONException m) = m"
| "message (BadConfigException m) = m"
| "message (LoadLibraryException m c) = m"
| "message (ClassCastException m) = m"
| "message (OtherThrowable n m) = m"

fun className :: "Throwable \<Rightarrow> string" where
  "className (IllegalArgumentException m) = ''java.lang.IllegalArgumentException''"
| "className (VpnStartException m) = ''org.amnezia.vpn.protocol.VpnStartException''"
| "className (VpnException m) = ''org.amnezia.vpn.protocol.VpnException''"
| "className (JSONException m) = ''org.json.JSONException''"
| "className (BadConfigException m) = ''org.amnezia.vpn.protocol.BadConfigException''"
| "className (LoadLibraryException m c) = ''org.amnezia.vpn.protocol.LoadLibraryException''"
| "className (ClassCastException m) = ''java.lang.ClassCastException''"
| "className (OtherThrowable n m) = n"

text \<open>\<^verbatim>\<open>e.message ?: e.toString()\<close>\<close>

definition messageOrToString :: "Throwable \<Rightarrow> string" where
  "messageOrToString e = (case message e of Some m \<Rightarrow> m | None \<Rightarrow> className e)"

text \<open>
  \<^verbatim>\<open>String.isBlank\<close>: every character is white space. Strings are taken over Latin-1, where
  the white space of the JVM is 9 to 13, 28 to 32 and 160.
\<close>

definition isWhitespace :: "char \<Rightarrow> bool" where
  "isWhitespace c =
     (let n = (of_char c :: nat) in (9 \<le> n \<and> n \<le> 13) \<or> (28 \<le> n \<and> n \<le> 32) \<or> n = 160)"

definition isBlank :: "string \<Rightarrow> bool" where
  "isBlank s = list_all isWhitespace s"

function showNat :: "nat \<Rightarrow> string" where
  "showNat n =
     (if n < 10 then [''0123456789'' ! n]
      else showNat (n div 10) @ [''0123456789'' ! (n mod 10)])"
  by pat_completeness auto
termination
  by (relation "measure id") auto

declare showNat.simps [simp del]

definition showInt :: "int \<Rightarrow> string" where
  "showInt i = (if i < 0 then ''-'' @ showNat (nat (- i)) else showNat (nat i))"

text \<open>\<^verbatim>\<open>JSONObject.opt\<close>: the value of a key, or null.\<close>

definition opt :: "JSONObject \<Rightarrow> string \<Rightarrow> jvalue option" where
  "opt c name = map_of c name"

text \<open>
  \<^verbatim>\<open>JSONObject.getString\<close>: a missing key throws, a value that is not a string is
  printed.
\<close>

definition getString :: "JSONObject \<Rightarrow> string \<Rightarrow> Throwable + string" where
  "getString c name =
     (case map_of c name of
        None \<Rightarrow> Inl (JSONException (Some (''No value for '' @ name)))
      | Some (JString x) \<Rightarrow> Inr x
      | Some (JInt i) \<Rightarrow> Inr (showInt i)
      | Some (JOther r) \<Rightarrow> Inr r)"

text \<open>The casts \<^verbatim>\<open>as String?\<close> and \<^verbatim>\<open>as Int?\<close>: null passes, another class throws.\<close>

definition asString :: "jvalue option \<Rightarrow> Throwable + string option" where
  "asString v =
     (case v of
        None \<Rightarrow> Inr None
      | Some (JString x) \<Rightarrow> Inr (Some x)
      | Some _ \<Rightarrow> Inl (ClassCastException None))"

definition asInt :: "jvalue option \<Rightarrow> Throwable + int option" where
  "asInt v =
     (case v of
        None \<Rightarrow> Inr None
      | Some (JInt i) \<Rightarrow> Inr (Some i)
      | Some _ \<Rightarrow> Inl (ClassCastException None))"

section \<open>Collaborators that are not among the sources\<close>

text \<open>
  Modelled from the spec: \<^verbatim>\<open>Prefs.save\<close>. The object \<^verbatim>\<open>Prefs\<close> is missing; the spec
  has it as an external key-value store of the persisted fields. Saving a value puts it
  under the key, saving null leaves no value there.
\<close>

definition Prefs_save :: "string \<Rightarrow> PrefValue option \<Rightarrow> Prefs \<Rightarrow> Prefs" where
  "Prefs_save key v p = p(key := v)"

text \<open>
  Modelled from the spec: \<^verbatim>\<open>Prefs.load\<close> at type \<^verbatim>\<open>String\<close>, of the missing object
  \<^verbatim>\<open>Prefs\<close>. A key without a string gives the empty string (the source tests the
  result with \<^verbatim>\<open>ifBlank\<close>).
\<close>

definition Prefs_loadString :: "Prefs \<Rightarrow> string \<Rightarrow> string" where
  "Prefs_loadString p key = (case p key of Some (PrefString x) \<Rightarrow> x | _ \<Rightarrow> [])"

text \<open>
  Modelled from the spec: \<^verbatim>\<open>Prefs.load\<close> at type \<^verbatim>\<open>Int\<close>, of the missing object
  \<^verbatim>\<open>Prefs\<close>. A key without an integer gives 0.
\<close>

definition Prefs_loadInt :: "Prefs \<Rightarrow> string \<Rightarrow> int" where
  "Prefs_loadInt p key = (case p key of Some (PrefInt i) \<Rightarrow> i | _ \<Rightarrow> 0)"

text \<open>
  Modelled from the spec: \<^verbatim>\<open>clientMessengers.send\<close>, an extension of the missing class
  \<^verbatim>\<open>IpcMessenger\<close>. The spec has the broadcast deliver the event to every registered
  channel; what it does with a channel that cannot be reached is left out.
\<close>

definition clientMessengers_send :: "ServiceEvent \<Rightarrow> service \<Rightarrow> service" where
  "clientMessengers_send ev s = s\<lparr>trace := trace s @ [Sent (map fst (clientMessengers s)) ev]\<rparr>"

text \<open>
  Modelled from the spec: \<^verbatim>\<open>IpcMessenger.send\<close> of the missing class \<^verbatim>\<open>IpcMessenger\<close>:
  the unicast reply to one channel.
\<close>

definition IpcMessenger_send :: "messenger \<Rightarrow> ServiceEvent \<Rightarrow> service \<Rightarrow> service" where
  "IpcMessenger_send m ev s = s\<lparr>trace := trace s @ [Sent [m] ev]\<rparr>"

text \<open>
  Modelled from the spec: \<^verbatim>\<open>NetworkState.bindNetworkListener\<close> of the missing class
  \<^verbatim>\<open>NetworkState\<close>, the network observer of the spec: it binds the observer.
\<close>

definition bindNetworkListener :: "service \<Rightarrow> service" where
  "bindNetworkListener s = s\<lparr>networkListenerBound := True\<rparr>"

text \<open>
  Modelled from the spec: \<^verbatim>\<open>NetworkState.unbindNetworkListener\<close> of the missing class
  \<^verbatim>\<open>NetworkState\<close>: it unbinds the observer.
\<close>

definition unbindNetworkListener :: "service \<Rightarrow> service" where
  "unbindNetworkListener s = s\<lparr>networkListenerBound := False\<rparr>"

text \<open>
  Modelled from the spec: \<^verbatim>\<open>VpnStateStore.store\<close> of the missing object
  \<^verbatim>\<open>VpnStateStore\<close>: it keeps the state with the descriptive fields for display.
\<close>

definition VpnStateStore_store :: "ProtocolState \<times> string option \<times> int \<Rightarrow> service \<Rightarrow> service" where
  "VpnStateStore_store v s = s\<lparr>vpnStateStore := v\<rparr>"

section \<open>Methods of the service\<close>

text \<open>
  A method that an exception can leave returns \<open>Inl\<close> with the exception and the
  service as it was when the exception was thrown, \<open>Inr\<close> with the service otherwise.
\<close>

type_synonym outcome = "(Throwable \<times> service) + service"

text \<open>
  \<^verbatim>\<open>onError\<close> (lines 450 to 459) launches the broadcast on \<^verbatim>\<open>mainScope\<close>;
  \<open>sendError\<close> is the launched block.
\<close>

definition onError :: "string \<Rightarrow> service \<Rightarrow> service" where
  "onError msg s = s\<lparr>pendingErrors := pendingErrors s @ [msg]\<rparr>"

definition sendError :: "string \<Rightarrow> service \<Rightarrow> service" where
  "sendError msg s = clientMessengers_send (ERROR msg) s"

text \<open>
  \<^verbatim>\<open>stopService\<close> (lines 281 to 290) arms the timer that kills the process after
  \<^verbatim>\<open>STOP_SERVICE_TIMEOUT\<close> and calls \<^verbatim>\<open>stopSelf\<close>.
\<close>

definition stopService :: "service \<Rightarrow> service" where
  "stopService s = s\<lparr>killTimers := Suc (killTimers s), trace := trace s @ [StopSelf]\<rparr>"

text \<open>The body of \<^verbatim>\<open>launchSendingStatistics\<close> (lines 336 to 349) is a comment.\<close>

definition launchSendingStatistics :: "service \<Rightarrow> service" where
  "launchSendingStatistics s = s"

definition stopSendingStatistics :: "service \<Rightarrow> service" where
  "stopSendingStatistics s = s\<lparr>statisticsSendingJob := map_option (\<lambda>_. False) (statisticsSendingJob s)\<rparr>"

definition isConnected :: "service \<Rightarrow> bool" where
  "isConnected s = (protocolState s = CONNECTED)"

definition isDisconnected :: "service \<Rightarrow> bool" where
  "isDisconnected s = (protocolState s = DISCONNECTED)"

definition isUnknown :: "service \<Rightarrow> bool" where
  "isUnknown s = (protocolState s = UNKNOWN)"

definition isActivityConnected :: "platform \<Rightarrow> service \<Rightarrow> bool" where
  "isActivityConnected env s =
     list_ex (\<lambda>(m, name). name = Some (ACTIVITY_MESSENGER_NAME env)) (clientMessengers s)"

text \<open>
  \<^verbatim>\<open>connectionExceptionHandler\<close> (lines 106 to 121): \<open>Inl\<close> is the \<^verbatim>\<open>throw e\<close> of the
  last branch.
\<close>

definition connectionExceptionHandler :: "Throwable \<Rightarrow> service \<Rightarrow> outcome" where
  "connectionExceptionHandler e s =
     (let s1 = s\<lparr>protocolState := DISCONNECTED, protocol := None\<rparr> in
      case e of
        IllegalArgumentException m \<Rightarrow> Inr (onError (messageOrToString e) s1)
      | VpnStartException m \<Rightarrow> Inr (onError (messageOrToString e) s1)
      | VpnException m \<Rightarrow> Inr (onError (messageOrToString e) s1)
      | JSONException m \<Rightarrow> Inr (onError (''VPN config format error: '' @ template m) s1)
      | BadConfigException m \<Rightarrow> Inr (onError (''VPN config format error: '' @ template m) s1)
      | LoadLibraryException m c \<Rightarrow> Inr (onError (template m @ ''. Caused: '' @ template c) s1)
      | ClassCastException m \<Rightarrow> Inl (e, s1)
      | OtherThrowable n m \<Rightarrow> Inl (e, s1))"

text \<open>\<^verbatim>\<open>getProtocol\<close> (lines 436 to 445); \<open>newProtocol\<close> is its \<^verbatim>\<open>when\<close>.\<close>

definition newProtocol :: "string \<Rightarrow> Protocol option" where
  "newProtocol protocolName =
     (if protocolName = ''wireguard'' then Some Wireguard
      else if protocolName = ''awg'' then Some Awg
      else if protocolName = ''openvpn'' then Some OpenVpn
      else if protocolName = ''cloak'' then Some Cloak
      else None)"

definition getProtocol :: "string \<Rightarrow> service \<Rightarrow> Throwable + Protocol \<times> service" where
  "getProtocol protocolName s =
     (case protocolCache s protocolName of
        Some p \<Rightarrow> Inr (p, s)
      | None \<Rightarrow>
          (case newProtocol protocolName of
             None \<Rightarrow>
               Inl (IllegalArgumentException
                 (Some (''Protocol '' @ [CHR 0x27] @ protocolName @ [CHR 0x27] @ '' not found'')))
           | Some p \<Rightarrow>
               Inr (p, s\<lparr>protocolCache := (protocolCache s)(protocolName \<mapsto> p),
                         trace := trace s @ [Initialized p]\<rparr>)))"

text \<open>\<^verbatim>\<open>parseConfigToJson\<close> (lines 461 to 471)\<close>

definition parseConfigToJson :: "platform \<Rightarrow> string \<Rightarrow> service \<Rightarrow> JSONObject option \<times> service" where
  "parseConfigToJson env vpnConfig s =
     (if isBlank vpnConfig then (None, s)
      else case jsonObject env vpnConfig of
             Inr c \<Rightarrow> (Some c, s)
           | Inl m \<Rightarrow> (None, onError (''Invalid VPN config json format: '' @ template m) s))"

text \<open>\<^verbatim>\<open>saveServerData\<close> (lines 473 to 478)\<close>

definition saveServerData :: "JSONObject option \<Rightarrow> service \<Rightarrow> outcome" where
  "saveServerData config s =
     (case asString (Option.bind config (\<lambda>c. opt c ''description'')) of
        Inl e \<Rightarrow> Inl (e, s)
      | Inr name \<Rightarrow>
          (let s1 = s\<lparr>serverName := name\<rparr> in
           case asInt (Option.bind config (\<lambda>c. opt c ''serverIndex'')) of
             Inl e \<Rightarrow> Inl (e, s1)
           | Inr i \<Rightarrow>
               (let s2 = s1\<lparr>serverIndex := (case i of None \<Rightarrow> - 1 | Some n \<Rightarrow> n)\<rparr>;
                    s3 = s2\<lparr>prefs := Prefs_save PREFS_SERVER_NAME
                                        (map_option PrefString (serverName s2)) (prefs s2)\<rparr>
                in Inr (s3\<lparr>prefs := Prefs_save PREFS_SERVER_INDEX
                                       (Some (PrefInt (serverIndex s3))) (prefs s3)\<rparr>))))"

text \<open>\<^verbatim>\<open>loadServerData\<close> (lines 480 to 483)\<close>

definition loadServerData :: "service \<Rightarrow> service" where
  "loadServerData s =
     (let n = Prefs_loadString (prefs s) PREFS_SERVER_NAME;
          s1 = s\<lparr>serverName := (if isBlank n then None else Some n)\<rparr>
      in if serverName s1 \<noteq> None
         then s1\<lparr>serverIndex := Prefs_loadInt (prefs s1) PREFS_SERVER_INDEX\<rparr> else s1)"

text \<open>\<^verbatim>\<open>checkPermission\<close> (lines 485 to 495)\<close>

definition checkPermission :: "service \<Rightarrow> bool \<times> service" where
  "checkPermission s =
     (if \<not> prepared s then (False, s\<lparr>trace := trace s @ [StartActivity]\<rparr>) else (True, s))"

text \<open>\<^verbatim>\<open>connectionScope.launch\<close>: the new coroutine and its job.\<close>

definition launch :: "task \<Rightarrow> service \<Rightarrow> job \<times> service" where
  "launch t s = (length (jobs s), s\<lparr>jobs := jobs s @ [t]\<rparr>)"

text \<open>\<^verbatim>\<open>connectToVpn\<close> (lines 367 to 394)\<close>

definition connectToVpn :: "platform \<Rightarrow> string \<Rightarrow> service \<Rightarrow> outcome" where
  "connectToVpn env vpnConfig s =
     (if isConnected s \<or> protocolState s = CONNECTING then Inr s
      else
        (let s1 = s\<lparr>protocolState := CONNECTING\<rparr>;
             (config, s2) = parseConfigToJson env vpnConfig s1
         in case saveServerData config s2 of
              Inl x \<Rightarrow> Inl x
            | Inr s3 \<Rightarrow>
                (case config of
                   None \<Rightarrow> Inr ((onError ''Invalid VPN config'' s3)\<lparr>protocolState := DISCONNECTED\<rparr>)
                 | Some c \<Rightarrow>
                     (let (granted, s4) = checkPermission s3 in
                      if \<not> granted then Inr (s4\<lparr>protocolState := DISCONNECTED\<rparr>)
                      else
                        (let (j, s5) = launch (ConnReadDisconnectionJob c) s4
                         in Inr (s5\<lparr>connectionJob := Some j\<rparr>))))))"

text \<open>\<^verbatim>\<open>connect\<close> (lines 357 to 364)\<close>

definition connect :: "platform \<Rightarrow> string option \<Rightarrow> service \<Rightarrow> outcome" where
  "connect env vpnConfig s =
     (case vpnConfig of
        None \<Rightarrow> connectToVpn env (Prefs_loadString (prefs s) PREFS_CONFIG_KEY) s
      | Some v \<Rightarrow>
          connectToVpn env v
            (s\<lparr>prefs := Prefs_save PREFS_CONFIG_KEY (Some (PrefString v)) (prefs s)\<rparr>))"

text \<open>\<^verbatim>\<open>disconnect\<close> (lines 397 to 420), up to the launch\<close>

definition disconnect :: "service \<Rightarrow> service" where
  "disconnect s =
     (if isUnknown s \<or> isDisconnected s \<or> protocolState s = DISCONNECTING then s
      else
        (let (j, s1) = launch DiscReadConnectionJob (s\<lparr>protocolState := DISCONNECTING\<rparr>)
         in s1\<lparr>disconnectionJob := Some j\<rparr>))"

text \<open>\<^verbatim>\<open>reconnect\<close> (lines 423 to 433), up to the launch\<close>

definition reconnect :: "service \<Rightarrow> service" where
  "reconnect s =
     (if \<not> isConnected s then s
      else
        (let (j, s1) = launch ReconReconnectVpn (s\<lparr>protocolState := RECONNECTING\<rparr>)
         in s1\<lparr>connectionJob := Some j\<rparr>))"

text \<open>
  Modelled from the spec: the notification of the missing class \<^verbatim>\<open>NetworkState\<close>. The
  service constructs it with \<^verbatim>\<open>::reconnect\<close> (line 214), and the spec has a reported
  connectivity change invoke \<^verbatim>\<open>reconnect\<close>.
\<close>

definition onNetworkChanged :: "service \<Rightarrow> service" where
  "onNetworkChanged s = reconnect s"

text \<open>The actions of \<^verbatim>\<open>actionMessageHandler\<close> with what the message carries for each.\<close>

datatype Action =
    REGISTER_CLIENT "string option"
  | UNREGISTER_CLIENT
  | CONNECT "string option"
  | DISCONNECT
  | REQUEST_STATUS
  | SET_SAVE_LOGS bool

text \<open>
  \<^verbatim>\<open>handleMessage\<close> (lines 125 to 166); \<open>replyTo\<close> is \<^verbatim>\<open>msg.replyTo\<close>, taken as never
  null.
\<close>

definition handleMessage :: "platform \<Rightarrow> Action \<Rightarrow> messenger \<Rightarrow> service \<Rightarrow> outcome" where
  "handleMessage env action replyTo s =
     (case action of
        REGISTER_CLIENT clientName \<Rightarrow>
          (let s1 = s\<lparr>clientMessengers := AList.update replyTo clientName (clientMessengers s)\<rparr>
           in Inr (if clientName = Some (ACTIVITY_MESSENGER_NAME env) \<and> isConnected s1
                   then launchSendingStatistics s1 else s1))
      | UNREGISTER_CLIENT \<Rightarrow>
          (case map_of (clientMessengers s) replyTo of
             None \<Rightarrow> Inr s
           | Some name \<Rightarrow>
               (let s1 = s\<lparr>clientMessengers := AList.delete replyTo (clientMessengers s)\<rparr>
                in Inr (if name = Some (ACTIVITY_MESSENGER_NAME env)
                        then stopSendingStatistics s1 else s1)))
      | CONNECT vpnConfig \<Rightarrow> connect env vpnConfig s
      | DISCONNECT \<Rightarrow> Inr (disconnect s)
      | REQUEST_STATUS \<Rightarrow>
          (case map_of (clientMessengers s) replyTo of
             None \<Rightarrow> Inr s
           | Some name \<Rightarrow>
               Inr (IpcMessenger_send replyTo (STATUS (protocolState s)) s))
      | SET_SAVE_LOGS b \<Rightarrow> Inr (s\<lparr>saveLogs := b\<rparr>))"

text \<open>
  The block that \<^verbatim>\<open>launchProtocolStateHandler\<close> (lines 295 to 333) runs for each
  collected state.
\<close>

definition onProtocolState :: "platform \<Rightarrow> ProtocolState \<Rightarrow> service \<Rightarrow> service" where
  "onProtocolState env st s =
     (let s1 =
        (case st of
           CONNECTED \<Rightarrow>
             (let b = bindNetworkListener s
              in if isActivityConnected env b then launchSendingStatistics b else b)
         | DISCONNECTED \<Rightarrow>
             (let u = stopSendingStatistics (unbindNetworkListener s)
              in if \<not> isServiceBound u then stopService u else u)
         | DISCONNECTING \<Rightarrow> stopSendingStatistics (unbindNetworkListener s)
         | RECONNECTING \<Rightarrow> stopSendingStatistics s
         | CONNECTING \<Rightarrow> s
         | UNKNOWN \<Rightarrow> s);
          s2 = clientMessengers_send (STATUS_CHANGED st) s1
      in VpnStateStore_store (st, serverName s2, serverIndex s2) s2)"

text \<open>
  The overloaded service methods (lines 217 to 268), for an intent that is not the
  system's \<^verbatim>\<open>SERVICE_INTERFACE\<close>. \<^verbatim>\<open>onStartCommand\<close> takes the config its three
  branches pass to \<^verbatim>\<open>connect\<close>.
\<close>

definition onStartCommand :: "platform \<Rightarrow> string option \<Rightarrow> service \<Rightarrow> outcome" where
  "onStartCommand env vpnConfig s =
     (case connect env vpnConfig s of
        Inl x \<Rightarrow> Inl x
      | Inr s1 \<Rightarrow> Inr (s1\<lparr>trace := trace s1 @ [StartForeground]\<rparr>))"

definition onBind :: "service \<Rightarrow> service" where
  "onBind s = s\<lparr>isServiceBound := True\<rparr>"

definition onUnbind :: "service \<Rightarrow> service" where
  "onUnbind s =
     (if clientMessengers s = [] then
        (let s1 = s\<lparr>isServiceBound := False\<rparr>
         in if isUnknown s1 \<or> isDisconnected s1 then stopService s1 else s1)
      else s)"

definition onRebind :: "service \<Rightarrow> service" where
  "onRebind s = s\<lparr>isServiceBound := True\<rparr>"

definition onRevoke :: "service \<Rightarrow> service" where
  "onRevoke s = disconnect s"

text \<open>
  The service as its field initialisers leave it (lines 79 to 101), with the
  preferences and the permission found at start, and \<^verbatim>\<open>onCreate\<close> (lines 207 to 215).
\<close>

definition newService :: "Prefs \<Rightarrow> bool \<Rightarrow> service" where
  "newService p granted =
     \<lparr>isServiceBound = False, protocol = None, protocolCache = Map.empty,
      protocolState = UNKNOWN, serverName = None, serverIndex = - 1,
      connectionJob = None, disconnectionJob = None, statisticsSendingJob = None,
      clientMessengers = [], prefs = p, prepared = granted,
      networkListenerBound = False, saveLogs = False,
      vpnStateStore = (UNKNOWN, None, - 1), jobs = [], collected = UNKNOWN,
      pendingErrors = [], killTimers = 0, killed = False, uncaught = None, trace = []\<rparr>"

definition onCreate :: "Prefs \<Rightarrow> bool \<Rightarrow> service" where
  "onCreate p granted = loadServerData (newService p granted)"

section \<open>The coroutines, one statement at a time\<close>

definition setTask :: "job \<Rightarrow> task \<Rightarrow> service \<Rightarrow> service" where
  "setTask j t s = s\<lparr>jobs := (jobs s)[j := t]\<rparr>"

definition isCompleted :: "job \<Rightarrow> service \<Rightarrow> bool" where
  "isCompleted j s = (j < length (jobs s) \<and> jobs s ! j = Completed)"

text \<open>An exception that escapes to the looper or to the thread ends the process.\<close>

definition ended :: "outcome \<Rightarrow> service" where
  "ended r = (case r of Inr s \<Rightarrow> s | Inl (e, s) \<Rightarrow> s\<lparr>uncaught := Some e\<rparr>)"

text \<open>A coroutine that throws is over, and the handler of its scope runs.\<close>

definition failed :: "job \<Rightarrow> Throwable \<Rightarrow> service \<Rightarrow> service" where
  "failed j e s = ended (connectionExceptionHandler e (setTask j Completed s))"

text \<open>
  The next statement of coroutine \<open>j\<close>; \<open>None\<close> when it waits (in a join, in a call
  of the protocol, for the state \<^verbatim>\<open>DISCONNECTED\<close>) or is over.
\<close>

definition runJob :: "job \<Rightarrow> service \<Rightarrow> service option" where
  "runJob j s =
     (if \<not> j < length (jobs s) then None
      else case jobs s ! j of
        ConnReadDisconnectionJob c \<Rightarrow>
          Some (setTask j (case disconnectionJob s of
                             None \<Rightarrow> ConnClearDisconnectionJob c
                           | Some d \<Rightarrow> ConnJoin c d) s)
      | ConnJoin c d \<Rightarrow>
          (if isCompleted d s then Some (setTask j (ConnClearDisconnectionJob c) s) else None)
      | ConnClearDisconnectionJob c \<Rightarrow>
          Some (setTask j (ConnGetProtocol c) (s\<lparr>disconnectionJob := None\<rparr>))
      | ConnGetProtocol c \<Rightarrow>
          (case getString c ''protocol'' of
             Inl e \<Rightarrow> Some (failed j e s)
           | Inr protocolName \<Rightarrow>
               (case getProtocol protocolName s of
                  Inl e \<Rightarrow> Some (failed j e s)
                | Inr (p, s1) \<Rightarrow> Some (setTask j (ConnStartVpn c) (s1\<lparr>protocol := Some p\<rparr>))))
      | ConnStartVpn c \<Rightarrow>
          (case protocol s of
             None \<Rightarrow> Some (setTask j Completed s)
           | Some p \<Rightarrow>
               Some (setTask j (ConnInStartVpn p) (s\<lparr>trace := trace s @ [StartVpnCalled j p]\<rparr>)))
      | ConnInStartVpn p \<Rightarrow> None
      | DiscReadConnectionJob \<Rightarrow>
          Some (setTask j (case connectionJob s of
                             None \<Rightarrow> DiscClearConnectionJob
                           | Some c \<Rightarrow> DiscJoin c) s)
      | DiscJoin c \<Rightarrow>
          (if isCompleted c s then Some (setTask j DiscClearConnectionJob s) else None)
      | DiscClearConnectionJob \<Rightarrow>
          Some (setTask j DiscStopVpn (s\<lparr>connectionJob := None\<rparr>))
      | DiscStopVpn \<Rightarrow>
          (case protocol s of
             None \<Rightarrow> Some (setTask j DiscClearProtocol s)
           | Some p \<Rightarrow>
               Some (setTask j (DiscInStopVpn p) (s\<lparr>trace := trace s @ [StopVpnCalled j p]\<rparr>)))
      | DiscInStopVpn p \<Rightarrow> None
      | DiscClearProtocol \<Rightarrow>
          Some (setTask j DiscAwaitDisconnected (s\<lparr>protocol := None\<rparr>))
      | DiscAwaitDisconnected \<Rightarrow>
          (if protocolState s = DISCONNECTED then Some (setTask j Completed s) else None)
      | ReconReconnectVpn \<Rightarrow>
          (case protocol s of
             None \<Rightarrow> Some (setTask j Completed s)
           | Some p \<Rightarrow>
               Some (setTask j (ReconInReconnectVpn p)
                      (s\<lparr>trace := trace s @ [ReconnectVpnCalled j p]\<rparr>)))
      | ReconInReconnectVpn p \<Rightarrow> None
      | Completed \<Rightarrow> None)"

text \<open>
  The call of the protocol that coroutine \<open>j\<close> is in returns, or throws \<open>e\<close> when
  \<open>r = Some e\<close>.
\<close>

definition returns :: "job \<Rightarrow> Throwable option \<Rightarrow> service \<Rightarrow> service option" where
  "returns j r s =
     (if \<not> j < length (jobs s) then None
      else case jobs s ! j of
        ConnInStartVpn p \<Rightarrow>
          (case r of
             Some e \<Rightarrow> Some (failed j e s)
           | None \<Rightarrow> Some (setTask j Completed (s\<lparr>trace := trace s @ [StartVpnReturned j]\<rparr>)))
      | DiscInStopVpn p \<Rightarrow>
          (case r of
             Some e \<Rightarrow> Some (failed j e s)
           | None \<Rightarrow>
               Some (setTask j DiscClearProtocol (s\<lparr>trace := trace s @ [StopVpnReturned j]\<rparr>)))
      | ReconInReconnectVpn p \<Rightarrow>
          (case r of
             Some e \<Rightarrow> Some (failed j e s)
           | None \<Rightarrow>
               Some (setTask j Completed (s\<lparr>trace := trace s @ [ReconnectVpnReturned j]\<rparr>)))
      | _ \<Rightarrow> None)"

text \<open>
  \<^verbatim>\<open>DISCONNECT_TIMEOUT\<close> passes while coroutine \<open>j\<close> waits for the state
  \<^verbatim>\<open>DISCONNECTED\<close> (lines 415 to 418).
\<close>

definition timeout :: "job \<Rightarrow> service \<Rightarrow> service option" where
  "timeout j s =
     (if j < length (jobs s) \<and> jobs s ! j = DiscAwaitDisconnected
         \<and> protocolState s \<noteq> DISCONNECTED
      then Some (setTask j Completed (stopService s)) else None)"

section \<open>The service as a labelled transition system\<close>

text \<open>
  A label is one thing that happens: the looper of the main thread delivers a message
  or a callback, the collector of \<^verbatim>\<open>protocolState\<close> handles the current value, a
  launched broadcast or a kill timer runs, a protocol instance writes the state it was
  given at \<^verbatim>\<open>initialize\<close>, a coroutine executes its next statement, a call of a
  protocol returns, a timeout passes. Teardown (\<^verbatim>\<open>onDestroy\<close>) is not part of it.
\<close>

datatype label =
    Message Action messenger
  | StartCommand "string option"
  | Bind
  | Unbind
  | Rebind
  | Revoke
  | NetworkChanged
  | ProtocolReports ProtocolState
  | PermissionChanged bool
  | Collect
  | SendError
  | KillTimerFires
  | Run job
  | Returns job "Throwable option"
  | Timeout job

definition step :: "platform \<Rightarrow> label \<Rightarrow> service \<Rightarrow> service option" where
  "step env l s =
     (if killed s \<or> uncaught s \<noteq> None then None
      else case l of
        Message action replyTo \<Rightarrow> Some (ended (handleMessage env action replyTo s))
      | StartCommand vpnConfig \<Rightarrow> Some (ended (onStartCommand env vpnConfig s))
      | Bind \<Rightarrow> Some (onBind s)
      | Unbind \<Rightarrow> Some (onUnbind s)
      | Rebind \<Rightarrow> Some (onRebind s)
      | Revoke \<Rightarrow> Some (onRevoke s)
      | NetworkChanged \<Rightarrow> Some (onNetworkChanged s)
      | ProtocolReports st \<Rightarrow> Some (s\<lparr>protocolState := st\<rparr>)
      | PermissionChanged granted \<Rightarrow> Some (s\<lparr>prepared := granted\<rparr>)
      | Collect \<Rightarrow>
          (if protocolState s = collected s then None
           else Some (onProtocolState env (protocolState s) (s\<lparr>collected := protocolState s\<rparr>)))
      | SendError \<Rightarrow>
          (case pendingErrors s of
             [] \<Rightarrow> None
           | msg # rest \<Rightarrow> Some (sendError msg (s\<lparr>pendingErrors := rest\<rparr>)))
      | KillTimerFires \<Rightarrow>
          (if killTimers s = 0 then None
           else Some (s\<lparr>killTimers := killTimers s - 1, killed := True,
                        trace := trace s @ [KillProcess]\<rparr>))
      | Run j \<Rightarrow> runJob j s
      | Returns j r \<Rightarrow> returns j r s
      | Timeout j \<Rightarrow> timeout j s)"

fun run :: "platform \<Rightarrow> label list \<Rightarrow> service \<Rightarrow> service option" where
  "run env [] s = Some s"
| "run env (l # ls) s = (case step env l s of None \<Rightarrow> None | Some t \<Rightarrow> run env ls t)"

inductive reachable :: "platform \<Rightarrow> service \<Rightarrow> bool" for env :: platform where
  created: "reachable env (onCreate p granted)"
| after: "reachable env s \<Longrightarrow> step env l s = Some t \<Longrightarrow> reachable env t"

text \<open>
  \<open>exec\<close> follows the labels as far as they are enabled and gives the service it
  arrives at.
\<close>

fun exec :: "platform \<Rightarrow> label list \<Rightarrow> service \<Rightarrow> service" where
  "exec env [] s = s"
| "exec env (l # ls) s = (case step env l s of None \<Rightarrow> s | Some t \<Rightarrow> exec env ls t)"

section \<open>Notions of the statements and of their proofs\<close>

text \<open>The calls of \<^verbatim>\<open>stopVpn\<close> that coroutine \<open>j\<close> has made.\<close>

fun isStopCall :: "job \<Rightarrow> effect \<Rightarrow> bool" where
  "isStopCall j (StopVpnCalled k p) = (k = j)"
| "isStopCall j _ = False"

definition stopCalls :: "job \<Rightarrow> effect list \<Rightarrow> nat" where
  "stopCalls j evs = length (filter (isStopCall j) evs)"

text \<open>No statistics job was ever created, and no \<^verbatim>\<open>STATISTICS_UPDATE\<close> was ever sent.\<close>

fun isStatistics :: "effect \<Rightarrow> bool" where
  "isStatistics (Sent r STATISTICS_UPDATE) = True"
| "isStatistics _ = False"

definition noStatistics :: "service \<Rightarrow> bool" where
  "noStatistics s \<longleftrightarrow> statisticsSendingJob s = None \<and> \<not> list_ex isStatistics (trace s)"


text \<open>The cache holds, under a name, what \<^verbatim>\<open>getProtocol\<close> constructs for that name.\<close>

definition cacheOk :: "service \<Rightarrow> bool" where
  "cacheOk s \<longleftrightarrow> (\<forall>n p. protocolCache s n = Some p \<longrightarrow> newProtocol n = Some p)"

text \<open>The binding of the network listener agrees with the last state the collector handled.\<close>

definition handled :: "service \<Rightarrow> bool" where
  "handled s \<longleftrightarrow>
     (collected s = CONNECTED \<longrightarrow> networkListenerBound s)
     \<and> (collected s = DISCONNECTED \<or> collected s = DISCONNECTING \<longrightarrow> \<not> networkListenerBound s)"

text \<open>What a method of the main thread leaves as it was.\<close>

definition kept :: "job \<Rightarrow> service \<Rightarrow> service \<Rightarrow> bool" where
  "kept j s t \<longleftrightarrow>
     collected t = collected s \<and> networkListenerBound t = networkListenerBound s
     \<and> protocolCache t = protocolCache s
     \<and> length (jobs s) \<le> length (jobs t) \<and> (\<forall>i < length (jobs s). jobs t ! i = jobs s ! i)
     \<and> stopCalls j (trace t) = stopCalls j (trace s)
     \<and> (noStatistics s \<longrightarrow> noStatistics t)"

text \<open>What a step of coroutine \<open>k\<close> leaves as it was.\<close>

definition moved :: "job \<Rightarrow> job \<Rightarrow> service \<Rightarrow> service \<Rightarrow> bool" where
  "moved j k s t \<longleftrightarrow>
     collected t = collected s \<and> networkListenerBound t = networkListenerBound s
     \<and> (cacheOk s \<longrightarrow> cacheOk t)
     \<and> length (jobs t) = length (jobs s) \<and> (\<forall>i. i \<noteq> k \<longrightarrow> jobs t ! i = jobs s ! i)
     \<and> (k \<noteq> j \<longrightarrow> stopCalls j (trace t) = stopCalls j (trace s))
     \<and> (noStatistics s \<longrightarrow> noStatistics t)"

section \<open>Concrete inputs\<close>

text \<open>
  A platform whose JSON constructor knows five configs: \<open>A\<close> names WireGuard, \<open>B\<close>
  names AmneziaWG, \<open>X\<close> names a protocol that does not exist, \<open>D\<close> has a description that
  is a number, \<open>E\<close> has a description and a server index; any other text is not JSON.
\<close>

definition demoPlatform :: platform where
  "demoPlatform =
     \<lparr>jsonObject =
        (\<lambda>v. if v = ''A'' then Inr [(''protocol'', JString ''wireguard'')]
              else if v = ''B'' then Inr [(''protocol'', JString ''awg'')]
              else if v = ''X'' then Inr [(''protocol'', JString ''unknown'')]
              else if v = ''D'' then Inr [(''protocol'', JString ''awg''), (''description'', JInt 5)]
              else if v = ''E'' then
                Inr [(''protocol'', JString ''wireguard''), (''description'', JString ''office''),
                     (''serverIndex'', JInt 2)]
              else Inl (Some ''bad'')),
      ACTIVITY_MESSENGER_NAME = ''Activity''\<rparr>"

text \<open>Preferences in which an earlier connect saved a server name and index.\<close>

definition savedPrefs :: Prefs where
  "savedPrefs = [PREFS_SERVER_NAME \<mapsto> PrefString ''home'', PREFS_SERVER_INDEX \<mapsto> PrefInt 3]"

text \<open>
  Client 5 registers as the activity and connects with \<open>A\<close>; coroutine 0 goes through
  its statements into \<^verbatim>\<open>startVpn\<close>.
\<close>

definition startingRun :: "label list" where
  "startingRun =
     [Message (REGISTER_CLIENT (Some ''Activity'')) 5, Message (CONNECT (Some ''A'')) 5,
      Run 0, Run 0, Run 0, Run 0]"

text \<open>The protocol reports \<^verbatim>\<open>CONNECTED\<close>, the call returns, the collector handles the state.\<close>

definition connectedRun :: "label list" where
  "connectedRun = startingRun @ [ProtocolReports CONNECTED, Returns 0 None, Collect]"

text \<open>Then the network changes, and the collector handles \<^verbatim>\<open>RECONNECTING\<close>.\<close>

definition reconnectingRun :: "label list" where
  "reconnectingRun = connectedRun @ [NetworkChanged, Collect]"

text \<open>
  Or the client disconnects: coroutine 1 joins coroutine 0, calls \<^verbatim>\<open>stopVpn\<close>, which
  returns without the state becoming \<^verbatim>\<open>DISCONNECTED\<close>, and waits for that state.
\<close>

definition awaitingRun :: "label list" where
  "awaitingRun =
     connectedRun @ [Message DISCONNECT 5, Collect, Run 1, Run 1, Run 1, Run 1,
                     Returns 1 None, Run 1]"

text \<open>
  The service is started with \<open>A\<close> and no client ever binds; when it is connected the
  permission is revoked, and coroutine 1 calls \<^verbatim>\<open>stopVpn\<close>.
\<close>

definition stoppingRun :: "label list" where
  "stoppingRun =
     [StartCommand (Some ''A''), Run 0, Run 0, Run 0, Run 0,
      ProtocolReports CONNECTED, Returns 0 None, Collect,
      Revoke, Collect, Run 1, Run 1, Run 1, Run 1]"

text \<open>
  \<^verbatim>\<open>stopVpn\<close> returns, the timeout passes, and only then the protocol reports
  \<^verbatim>\<open>DISCONNECTED\<close>, which the collector handles.
\<close>

definition lateDisconnectedRun :: "label list" where
  "lateDisconnectedRun =
     stoppingRun @ [Returns 1 None, Run 1, Timeout 1, ProtocolReports DISCONNECTED, Collect]"

text \<open>Client 5 connects with \<open>X\<close>; coroutine 0 is about to resolve the protocol.\<close>

definition resolvingRun :: "label list" where
  "resolvingRun =
     [Message (REGISTER_CLIENT (Some ''Activity'')) 5, Message (CONNECT (Some ''X'')) 5,
      Run 0, Run 0]"


text \<open>The activity registers when the service is already connected.\<close>

definition lateRegisterRun :: "label list" where
  "lateRegisterRun =
     [Message (CONNECT (Some ''A'')) 5, Run 0, Run 0, Run 0, Run 0,
      ProtocolReports CONNECTED, Returns 0 None, Collect,
      Message (REGISTER_CLIENT (Some ''Activity'')) 5]"

text \<open>
  Connect with \<open>A\<close>, disconnect, connect with \<open>B\<close>, disconnect, while
  \<^verbatim>\<open>startVpn\<close> of WireGuard is slow. Coroutine 1 (first disconnect) reads
  \<^verbatim>\<open>connectionJob\<close> and joins coroutine 0; coroutine 2 (second connect) reads
  \<^verbatim>\<open>disconnectionJob\<close> and joins coroutine 1. When coroutine 0 is over, coroutine 1 sets
  \<^verbatim>\<open>connectionJob\<close> to null and calls \<^verbatim>\<open>stopVpn\<close>. Coroutine 3 (second disconnect)
  reads null, joins nothing and calls \<^verbatim>\<open>stopVpn\<close> of WireGuard too. The first
  \<^verbatim>\<open>stopVpn\<close> returns, WireGuard reports \<^verbatim>\<open>DISCONNECTED\<close>, coroutine 1 is over, and
  coroutine 2 resolves AmneziaWG and calls its \<^verbatim>\<open>startVpn\<close>.
\<close>

definition lostJobRun :: "label list" where
  "lostJobRun =
     [Message (CONNECT (Some ''A'')) 5, Run 0, Run 0, Run 0, Run 0,
      Message DISCONNECT 5, Run 1,
      Message (CONNECT (Some ''B'')) 5, Run 2,
      Returns 0 None, Run 1, Run 1, Run 1,
      Message DISCONNECT 5, Run 3, Run 3, Run 3,
      Returns 1 None, Run 1, ProtocolReports DISCONNECTED, Run 1,
      Run 2, Run 2, Run 2, Run 2]"

text \<open>
  Connect with \<open>A\<close>, disconnect, connect with \<open>B\<close>. Coroutine 0 reads
  \<^verbatim>\<open>disconnectionJob\<close> (null) before the disconnect and sets it to null after, so that
  coroutine 2 (second connect) reads null and joins nothing while coroutine 1 is in
  \<^verbatim>\<open>stopVpn\<close>.
\<close>

definition clearedJobRun :: "label list" where
  "clearedJobRun =
     [Message (CONNECT (Some ''A'')) 5, Run 0,
      Message DISCONNECT 5, Run 0, Run 0, Run 0, Returns 0 None,
      Run 1, Run 1, Run 1, Run 1,
      Message (CONNECT (Some ''B'')) 5, Run 2, Run 2, Run 2, Run 2]"

text \<open>The services that some of these runs arrive at.\<close>

definition connectedService :: service where
  "connectedService = exec demoPlatform connectedRun (onCreate Map.empty True)"

definition awaitingService :: service where
  "awaitingService = exec demoPlatform awaitingRun (onCreate Map.empty True)"

definition resolvingService :: service where
  "resolvingService = exec demoPlatform resolvingRun (onCreate Map.empty True)"

section \<open>What the steps leave as it was\<close>

lemma connectToVpn_kept: "kept j s (ended (connectToVpn env v s))"
  by (auto simp: kept_def noStatistics_def stopCalls_def connectToVpn_def parseConfigToJson_def saveServerData_def
      checkPermission_def launch_def onError_def ended_def Let_def nth_append
      split: option.split sum.split prod.split)

lemma connect_kept: "kept j s (ended (connect env c s))"
proof (cases c)
  case None
  then show ?thesis using connectToVpn_kept by (simp add: connect_def)
next
  case (Some v)
  have "kept j (s\<lparr>prefs := Prefs_save PREFS_CONFIG_KEY (Some (PrefString v)) (prefs s)\<rparr>)
          (ended (connect env c s))"
    using Some connectToVpn_kept by (simp add: connect_def)
  then show ?thesis by (simp add: kept_def noStatistics_def)
qed

lemma disconnect_kept: "kept j s (disconnect s)"
  by (simp add: kept_def noStatistics_def stopCalls_def disconnect_def launch_def nth_append)

lemma reconnect_kept: "kept j s (reconnect s)"
  by (simp add: kept_def noStatistics_def stopCalls_def reconnect_def launch_def nth_append)

lemma handleMessage_kept: "kept j s (ended (handleMessage env a m s))"
proof (cases a)
  case (CONNECT c)
  then show ?thesis using connect_kept by (simp add: handleMessage_def)
next
  case DISCONNECT
  then show ?thesis using disconnect_kept by (simp add: handleMessage_def ended_def)
qed (simp_all add: kept_def noStatistics_def stopCalls_def handleMessage_def ended_def launchSendingStatistics_def
      stopSendingStatistics_def IpcMessenger_send_def Let_def split: option.split)

lemma onStartCommand_kept: "kept j s (ended (onStartCommand env c s))"
proof (cases "connect env c s")
  case (Inl x)
  then show ?thesis using connect_kept[of j s env c] by (simp add: onStartCommand_def)
next
  case (Inr s1)
  then have "kept j s s1" using connect_kept[of j s env c] by (simp add: ended_def)
  then show ?thesis using Inr
    by (simp add: onStartCommand_def ended_def kept_def noStatistics_def stopCalls_def)
qed

lemma onUnbind_kept: "kept j s (onUnbind s)"
  by (simp add: kept_def noStatistics_def stopCalls_def onUnbind_def stopService_def Let_def)

lemma failed_moved: "moved j k s (failed k e s)"
  by (cases e)
     (simp_all add: moved_def noStatistics_def cacheOk_def failed_def connectionExceptionHandler_def ended_def
        setTask_def onError_def)

lemma getProtocol_moved:
  assumes "getProtocol n s = Inr (p, s1)"
  shows "moved j k s (setTask k tk (s1\<lparr>protocol := Some p\<rparr>))"
proof (cases "protocolCache s n")
  case None
  then show ?thesis using assms
    by (auto simp: getProtocol_def moved_def noStatistics_def cacheOk_def setTask_def stopCalls_def
        split: option.splits if_splits)
next
  case (Some q)
  then show ?thesis using assms
    by (auto simp: getProtocol_def moved_def noStatistics_def cacheOk_def setTask_def stopCalls_def)
qed

lemma runJob_moved:
  assumes "runJob k s = Some t"
  shows "moved j k s t \<and> k < length (jobs s) \<and> jobs s ! k \<noteq> Completed"
proof -
  have k: "k < length (jobs s)" using assms by (simp add: runJob_def split: if_splits)
  show ?thesis
  proof (cases "jobs s ! k")
    case (ConnGetProtocol c)
    show ?thesis
    proof (cases "getString c ''protocol''")
      case (Inl e)
      then show ?thesis using assms k ConnGetProtocol failed_moved[of j k s e]
        by (auto simp: runJob_def)
    next
      case (Inr n)
      show ?thesis
      proof (cases "getProtocol n s")
        case (Inl e)
        then show ?thesis using assms k ConnGetProtocol Inr failed_moved[of j k s e]
          by (auto simp: runJob_def)
      next
        case gp: (Inr ps)
        obtain p s1 where ps: "ps = (p, s1)" by (cases ps)
        show ?thesis using assms k ConnGetProtocol Inr gp ps
            getProtocol_moved[of n s p s1 j k "ConnStartVpn c"]
          by (auto simp: runJob_def)
      qed
    qed
  qed (use assms k in \<open>auto simp: runJob_def moved_def noStatistics_def cacheOk_def setTask_def stopCalls_def
         isCompleted_def split: option.splits if_splits\<close>)
qed

lemma returns_moved:
  assumes "returns k r s = Some t"
  shows "moved j k s t \<and> k < length (jobs s) \<and> jobs s ! k \<noteq> Completed"
proof -
  have k: "k < length (jobs s)" using assms by (simp add: returns_def split: if_splits)
  show ?thesis
  proof (cases r)
    case None
    then show ?thesis using assms k
      by (cases "jobs s ! k")
         (auto simp: returns_def moved_def noStatistics_def cacheOk_def setTask_def stopCalls_def)
  next
    case (Some e)
    then show ?thesis using assms k failed_moved[of j k s e]
      by (cases "jobs s ! k") (auto simp: returns_def)
  qed
qed

lemma timeout_moved:
  assumes "timeout k s = Some t"
  shows "moved j k s t \<and> k < length (jobs s) \<and> jobs s ! k \<noteq> Completed"
  using assms
  by (auto simp: timeout_def moved_def noStatistics_def cacheOk_def setTask_def stopService_def stopCalls_def
      split: if_splits)

lemma onProtocolState_props:
  "networkListenerBound (onProtocolState env st s) =
     (if st = CONNECTED then True else if st = DISCONNECTED \<or> st = DISCONNECTING then False
      else networkListenerBound s)
   \<and> collected (onProtocolState env st s) = collected s
   \<and> protocolCache (onProtocolState env st s) = protocolCache s
   \<and> jobs (onProtocolState env st s) = jobs s
   \<and> stopCalls j (trace (onProtocolState env st s)) = stopCalls j (trace s)
   \<and> (noStatistics s \<longrightarrow> noStatistics (onProtocolState env st s))"
  by (cases st)
     (simp_all add: noStatistics_def onProtocolState_def launchSendingStatistics_def stopSendingStatistics_def
        stopService_def stopCalls_def bindNetworkListener_def unbindNetworkListener_def
        clientMessengers_send_def VpnStateStore_store_def Let_def)

text \<open>Every step is of one of three kinds.\<close>

lemma step_kinds:
  assumes "step env l s = Some t"
  shows "kept j s t
     \<or> (\<exists>k. moved j k s t \<and> k < length (jobs s) \<and> jobs s ! k \<noteq> Completed)
     \<or> (l = Collect
          \<and> t = onProtocolState env (protocolState s) (s\<lparr>collected := protocolState s\<rparr>))"
proof (cases l)
  case (Message a m)
  then show ?thesis using assms handleMessage_kept[of j s env a m]
    by (simp add: step_def split: if_splits)
next
  case (StartCommand c)
  then show ?thesis using assms onStartCommand_kept[of j s env c]
    by (simp add: step_def split: if_splits)
next
  case Unbind
  then show ?thesis using assms onUnbind_kept[of j s] by (simp add: step_def split: if_splits)
next
  case Revoke
  then show ?thesis using assms disconnect_kept[of j s]
    by (simp add: step_def onRevoke_def split: if_splits)
next
  case NetworkChanged
  then show ?thesis using assms reconnect_kept[of j s]
    by (simp add: step_def onNetworkChanged_def split: if_splits)
next
  case Collect
  then show ?thesis using assms by (simp add: step_def split: if_splits)
next
  case (Run k)
  then show ?thesis using assms runJob_moved[of k s t j] by (auto simp: step_def split: if_splits)
next
  case (Returns k r)
  then show ?thesis using assms returns_moved[of k r s t j]
    by (auto simp: step_def split: if_splits)
next
  case (Timeout k)
  then show ?thesis using assms timeout_moved[of k s t j]
    by (auto simp: step_def split: if_splits)
qed (use assms in \<open>auto simp: step_def kept_def noStatistics_def stopCalls_def onBind_def onRebind_def
       sendError_def clientMessengers_send_def split: if_splits list.splits\<close>)

section \<open>Invariants\<close>

lemma step_handled:
  assumes "step env l s = Some t" "handled s"
  shows "handled t"
  using step_kinds[OF assms(1), of 0] assms(2)
    onProtocolState_props[of env "protocolState s" "s\<lparr>collected := protocolState s\<rparr>" 0]
  by (auto simp: kept_def moved_def handled_def)

lemma step_cacheOk:
  assumes "step env l s = Some t" "cacheOk s"
  shows "cacheOk t"
  using step_kinds[OF assms(1), of 0] assms(2)
    onProtocolState_props[of env "protocolState s" "s\<lparr>collected := protocolState s\<rparr>" 0]
  by (auto simp: kept_def moved_def noStatistics_def cacheOk_def)

text \<open>A coroutine that is over stays over and calls \<^verbatim>\<open>stopVpn\<close> no more.\<close>

lemma step_completed:
  assumes "step env l s = Some t" "j < length (jobs s)" "jobs s ! j = Completed"
  shows "j < length (jobs t) \<and> jobs t ! j = Completed
           \<and> stopCalls j (trace t) = stopCalls j (trace s)"
proof -
  consider (main) "kept j s t"
    | (job) k where "moved j k s t" "k < length (jobs s)" "jobs s ! k \<noteq> Completed"
    | (collect) "t = onProtocolState env (protocolState s) (s\<lparr>collected := protocolState s\<rparr>)"
    using step_kinds[OF assms(1), of j] by blast
  then show ?thesis
  proof cases
    case main
    then show ?thesis using assms(2,3) by (simp add: kept_def)
  next
    case job
    then have "k \<noteq> j" using assms(3) by auto
    then show ?thesis using job(1) assms(2,3) by (simp add: moved_def)
  next
    case collect
    then show ?thesis
      using assms(2,3)
        onProtocolState_props[of env "protocolState s" "s\<lparr>collected := protocolState s\<rparr>" j]
      by simp
  qed
qed

lemma exec_completed:
  "j < length (jobs s) \<Longrightarrow> jobs s ! j = Completed \<Longrightarrow>
     j < length (jobs (exec env ls s)) \<and> jobs (exec env ls s) ! j = Completed
     \<and> stopCalls j (trace (exec env ls s)) = stopCalls j (trace s)"
proof (induction ls arbitrary: s)
  case Nil
  then show ?case by simp
next
  case (Cons l ls)
  show ?case
  proof (cases "step env l s")
    case None
    then show ?thesis using Cons.prems by simp
  next
    case (Some u)
    from step_completed[OF Some Cons.prems] Cons.IH[of u] Some show ?thesis by simp
  qed
qed

lemma completed_disabled:
  assumes "j < length (jobs s)" "jobs s ! j = Completed"
  shows "step env (Run j) s = None \<and> step env (Returns j r) s = None
           \<and> step env (Timeout j) s = None"
  using assms by (simp add: step_def runJob_def returns_def timeout_def)

lemma step_noStatistics:
  assumes "step env l s = Some t" "noStatistics s"
  shows "noStatistics t"
proof -
  have "noStatistics (s\<lparr>collected := protocolState s\<rparr>)"
    using assms(2) by (simp add: noStatistics_def)
  then show ?thesis
    using step_kinds[OF assms(1), of 0] assms(2)
      onProtocolState_props[of env "protocolState s" "s\<lparr>collected := protocolState s\<rparr>" 0]
    by (auto simp: kept_def moved_def)
qed

lemma created_noStatistics: "noStatistics (onCreate p g)"
  by (simp add: noStatistics_def onCreate_def loadServerData_def newService_def Let_def)

lemma reachable_noStatistics: "reachable env s \<Longrightarrow> noStatistics s"
  by (induction rule: reachable.induct) (auto intro: created_noStatistics step_noStatistics)

lemma created_handled: "handled (onCreate p g)"
  by (simp add: handled_def onCreate_def loadServerData_def newService_def Let_def)

lemma created_cacheOk: "cacheOk (onCreate p g)"
  by (simp add: cacheOk_def onCreate_def loadServerData_def newService_def Let_def)

lemma reachable_handled: "reachable env s \<Longrightarrow> handled s"
  by (induction rule: reachable.induct) (auto intro: created_handled step_handled)

lemma reachable_cacheOk: "reachable env s \<Longrightarrow> cacheOk s"
  by (induction rule: reachable.induct) (auto intro: created_cacheOk step_cacheOk)

lemma exec_reachable: "reachable env s \<Longrightarrow> reachable env (exec env ls s)"
  by (induction ls arbitrary: s) (auto intro: reachable.after split: option.splits)

text \<open>The launched error broadcasts run in the order of their launch.\<close>

lemma sendErrors_drain:
  "pendingErrors t = ps \<Longrightarrow> \<not> killed t \<Longrightarrow> uncaught t = None \<Longrightarrow>
     \<exists>u. run env (replicate (length ps) SendError) t = Some u
        \<and> pendingErrors u = []
        \<and> trace u = trace t @ map (\<lambda>m. Sent (map fst (clientMessengers t)) (ERROR m)) ps
        \<and> protocolState u = protocolState t \<and> protocol u = protocol t
        \<and> uncaught u = None \<and> \<not> killed u \<and> clientMessengers u = clientMessengers t
        \<and> jobs u = jobs t"
proof (induction ps arbitrary: t)
  case Nil
  then show ?case by simp
next
  case (Cons m rest)
  let ?t1 = "sendError m (t\<lparr>pendingErrors := rest\<rparr>)"
  have st: "step env SendError t = Some ?t1"
    using Cons.prems by (simp add: step_def)
  have p: "pendingErrors ?t1 = rest" "\<not> killed ?t1" "uncaught ?t1 = None"
    using Cons.prems by (simp_all add: sendError_def clientMessengers_send_def)
  from Cons.IH[OF p] obtain u where u:
    "run env (replicate (length rest) SendError) ?t1 = Some u"
    "pendingErrors u = []"
    "trace u = trace ?t1 @ map (\<lambda>m. Sent (map fst (clientMessengers ?t1)) (ERROR m)) rest"
    "protocolState u = protocolState ?t1" "protocol u = protocol ?t1"
    "uncaught u = None" "\<not> killed u" "clientMessengers u = clientMessengers ?t1"
    "jobs u = jobs ?t1"
    by blast
  show ?case
    using st u by (simp add: sendError_def clientMessengers_send_def)
qed

section \<open>The claims\<close>

text \<open>
  Claim C2: a connect while the state is \<^verbatim>\<open>CONNECTED\<close> or \<^verbatim>\<open>CONNECTING\<close> is a no-op for
  the connection. \<^verbatim>\<open>connect\<close> returns the service it was given, but for the raw config it
  has saved under \<^verbatim>\<open>LAST_CONF\<close>: the state and the last state the collector handled
  are the same (so no state change is there to be broadcast), no coroutine is launched, no
  protocol is resolved or started, nothing is sent and no error broadcast is launched.
\<close>

theorem connect_when_connected_or_connecting:
  assumes "protocolState s = CONNECTED \<or> protocolState s = CONNECTING"
  shows "\<exists>t. connect env vpnConfig s = Inr t
           \<and> t = s\<lparr>prefs := (case vpnConfig of
                                None \<Rightarrow> prefs s
                              | Some v \<Rightarrow> Prefs_save PREFS_CONFIG_KEY (Some (PrefString v)) (prefs s))\<rparr>
           \<and> protocolState t = protocolState s \<and> collected t = collected s
           \<and> jobs t = jobs s \<and> connectionJob t = connectionJob s \<and> protocol t = protocol s
           \<and> protocolCache t = protocolCache s
           \<and> trace t = trace s \<and> pendingErrors t = pendingErrors s"
  using assms by (auto simp: connect_def connectToVpn_def isConnected_def split: option.splits)

theorem connect_when_connected_or_connecting_witness:
  "(protocolState connectedService = CONNECTED \<or> protocolState connectedService = CONNECTING)
   \<and> (\<exists>t. connect demoPlatform (Some ''B'') connectedService = Inr t
           \<and> t = connectedService\<lparr>prefs := (case Some ''B'' of
                                None \<Rightarrow> prefs connectedService
                              | Some v \<Rightarrow> Prefs_save PREFS_CONFIG_KEY (Some (PrefString v)) (prefs connectedService))\<rparr>
           \<and> protocolState t = protocolState connectedService \<and> collected t = collected connectedService
           \<and> jobs t = jobs connectedService \<and> connectionJob t = connectionJob connectedService \<and> protocol t = protocol connectedService
           \<and> protocolCache t = protocolCache connectedService
           \<and> trace t = trace connectedService \<and> pendingErrors t = pendingErrors connectedService)"
proof -
  have h: "protocolState connectedService = CONNECTED \<or> protocolState connectedService = CONNECTING"
    by code_simp
  show ?thesis
    using h connect_when_connected_or_connecting[OF h, of demoPlatform "Some ''B''"] by blast
qed

text \<open>
  Claim C3, as amended: when \<^verbatim>\<open>stopVpn\<close> has returned and \<^verbatim>\<open>DISCONNECT_TIMEOUT\<close> passes
  while the disconnect coroutine waits for the state \<^verbatim>\<open>DISCONNECTED\<close>, the coroutine calls
  \<^verbatim>\<open>stopService\<close> once (one kill timer is armed, which kills the process when it fires,
  and \<^verbatim>\<open>stopSelf\<close> is called once) and is over: whatever happens afterwards, it calls
  \<^verbatim>\<open>stopVpn\<close> no more and none of its steps is enabled again.
\<close>

theorem disconnect_timeout_escalates_once:
  assumes "\<not> killed s" "uncaught s = None"
    and "j < length (jobs s)" "jobs s ! j = DiscAwaitDisconnected"
    and "protocolState s \<noteq> DISCONNECTED"
  shows "\<exists>t. step env (Timeout j) s = Some t
           \<and> trace t = trace s @ [StopSelf] \<and> killTimers t = Suc (killTimers s)
           \<and> (\<exists>u. step env KillTimerFires t = Some u \<and> killed u
                  \<and> trace u = trace t @ [KillProcess])
           \<and> (\<forall>ls r. jobs (exec env ls t) ! j = Completed
                  \<and> stopCalls j (trace (exec env ls t)) = stopCalls j (trace s)
                  \<and> step env (Run j) (exec env ls t) = None
                  \<and> step env (Returns j r) (exec env ls t) = None
                  \<and> step env (Timeout j) (exec env ls t) = None)"
proof -
  let ?t = "setTask j Completed (stopService s)"
  have st: "step env (Timeout j) s = Some ?t"
    using assms by (simp add: step_def timeout_def)
  have tr: "trace ?t = trace s @ [StopSelf]" "killTimers ?t = Suc (killTimers s)"
    by (simp_all add: setTask_def stopService_def)
  have kill: "\<exists>u. step env KillTimerFires ?t = Some u \<and> killed u \<and> trace u = trace ?t @ [KillProcess]"
    using assms(1,2) by (simp add: step_def setTask_def stopService_def)
  have fin: "j < length (jobs ?t)" "jobs ?t ! j = Completed"
    using assms(3) by (simp_all add: setTask_def stopService_def)
  have calls: "stopCalls j (trace ?t) = stopCalls j (trace s)"
    by (simp add: tr stopCalls_def)
  have "jobs (exec env ls ?t) ! j = Completed
          \<and> stopCalls j (trace (exec env ls ?t)) = stopCalls j (trace s)
          \<and> step env (Run j) (exec env ls ?t) = None
          \<and> step env (Returns j r) (exec env ls ?t) = None
          \<and> step env (Timeout j) (exec env ls ?t) = None" for ls r
    using exec_completed[OF fin, of env ls] calls
      completed_disabled[of j "exec env ls ?t" env r] by simp
  with st tr kill show ?thesis by blast
qed

theorem disconnect_timeout_escalates_once_witness:
  "\<not> killed awaitingService \<and> uncaught awaitingService = None
   \<and> 1 < length (jobs awaitingService) \<and> jobs awaitingService ! 1 = DiscAwaitDisconnected
   \<and> protocolState awaitingService \<noteq> DISCONNECTED
   \<and> stopCalls 1 (trace awaitingService) = 1
   \<and> (\<exists>t. step demoPlatform (Timeout 1) awaitingService = Some t
           \<and> trace t = trace awaitingService @ [StopSelf] \<and> killTimers t = Suc (killTimers awaitingService)
           \<and> (\<exists>u. step demoPlatform KillTimerFires t = Some u \<and> killed u
                  \<and> trace u = trace t @ [KillProcess])
           \<and> (\<forall>ls r. jobs (exec demoPlatform ls t) ! 1 = Completed
                  \<and> stopCalls 1 (trace (exec demoPlatform ls t)) = stopCalls 1 (trace awaitingService)
                  \<and> step demoPlatform (Run 1) (exec demoPlatform ls t) = None
                  \<and> step demoPlatform (Returns 1 r) (exec demoPlatform ls t) = None
                  \<and> step demoPlatform (Timeout 1) (exec demoPlatform ls t) = None))"
proof -
  have h1: "\<not> killed awaitingService" by code_simp
  have h2: "uncaught awaitingService = None" by code_simp
  have h3: "1 < length (jobs awaitingService)" by code_simp
  have h4: "jobs awaitingService ! 1 = DiscAwaitDisconnected" by code_simp
  have h5: "protocolState awaitingService \<noteq> DISCONNECTED" by code_simp
  have h6: "stopCalls 1 (trace awaitingService) = 1" by code_simp
  show ?thesis
    using h1 h2 h3 h4 h5 h6 disconnect_timeout_escalates_once[OF h1 h2 h3 h4 h5, of demoPlatform]
    by blast
qed

text \<open>
  Claim C3 as stated fails twice. The timeout is around the wait only (lines 410 to 414):
  while coroutine 1 is inside \<^verbatim>\<open>stopVpn\<close> the state is not \<^verbatim>\<open>DISCONNECTED\<close>, no kill
  timer is armed and the timeout cannot pass. And when the timeout has passed and the
  protocol reports \<^verbatim>\<open>DISCONNECTED\<close> afterwards, with no client bound, the collector calls
  \<^verbatim>\<open>stopService\<close> a second time (line 309): two kill timers, \<^verbatim>\<open>stopSelf\<close> twice.
\<close>

theorem timeout_covers_the_wait_only:
  "map_option jobs (run demoPlatform stoppingRun (onCreate Map.empty True))
     = Some [Completed, DiscInStopVpn Wireguard]
   \<and> map_option protocolState (run demoPlatform stoppingRun (onCreate Map.empty True))
     = Some DISCONNECTING
   \<and> map_option killTimers (run demoPlatform stoppingRun (onCreate Map.empty True)) = Some 0
   \<and> map_option killTimers (run demoPlatform (stoppingRun @ [Timeout 1]) (onCreate Map.empty True))
     = None
   \<and> map_option killTimers (run demoPlatform lateDisconnectedRun (onCreate Map.empty True))
     = Some 2
   \<and> map_option trace (run demoPlatform lateDisconnectedRun (onCreate Map.empty True))
     = Some [StartForeground, Initialized Wireguard, StartVpnCalled 0 Wireguard,
             StartVpnReturned 0, Sent [] (STATUS_CHANGED CONNECTED),
             Sent [] (STATUS_CHANGED DISCONNECTING), StopVpnCalled 1 Wireguard,
             StopVpnReturned 1, StopSelf, StopSelf, Sent [] (STATUS_CHANGED DISCONNECTED)]"
  by code_simp

text \<open>
  Claim C4: when a connect coroutine comes to resolve a protocol name that is not one of
  \<^verbatim>\<open>wireguard\<close>, \<^verbatim>\<open>awg\<close>, \<^verbatim>\<open>openvpn\<close>, \<^verbatim>\<open>cloak\<close>, \<^verbatim>\<open>getProtocol\<close> throws the
  \<^verbatim>\<open>IllegalArgumentException\<close> that says the protocol was not found, and the handler of
  the scope turns it into a connect failure: the state is \<^verbatim>\<open>DISCONNECTED\<close>, nothing is left
  uncaught, and one error broadcast is launched. When the launched broadcasts have run
  (the ones that were pending before, then this one), the service has sent one \<^verbatim>\<open>ERROR\<close>
  event with that message to all registered clients, after those of the earlier
  messages, and the state is \<^verbatim>\<open>DISCONNECTED\<close>. The service is reachable, so that its cache
  holds supported names only.
\<close>

theorem unsupported_protocol_fails_connect:
  assumes "reachable env s" "\<not> killed s" "uncaught s = None"
    and "j < length (jobs s)" "jobs s ! j = ConnGetProtocol c"
    and "getString c ''protocol'' = Inr name" "newProtocol name = None"
    and "msg = ''Protocol '' @ [CHR 0x27] @ name @ [CHR 0x27] @ '' not found''"
  shows "getProtocol name s = Inl (IllegalArgumentException (Some msg))
     \<and> (\<exists>t. step env (Run j) s = Some t
           \<and> protocolState t = DISCONNECTED \<and> protocol t = None
           \<and> uncaught t = None \<and> \<not> killed t \<and> jobs t ! j = Completed
           \<and> protocolCache t = protocolCache s \<and> clientMessengers t = clientMessengers s
           \<and> trace t = trace s \<and> pendingErrors t = pendingErrors s @ [msg])
     \<and> (\<exists>u. run env (Run j # replicate (Suc (length (pendingErrors s))) SendError) s = Some u
           \<and> protocolState u = DISCONNECTED \<and> protocol u = None
           \<and> uncaught u = None \<and> \<not> killed u \<and> jobs u ! j = Completed
           \<and> pendingErrors u = []
           \<and> trace u = trace s @ map (\<lambda>m. Sent (map fst (clientMessengers s)) (ERROR m))
                                      (pendingErrors s @ [msg]))"
proof -
  have "cacheOk s" using assms(1) by (rule reachable_cacheOk)
  then have cache: "protocolCache s name = None"
    using assms(7) by (cases "protocolCache s name") (auto simp: cacheOk_def)
  then have gp: "getProtocol name s = Inl (IllegalArgumentException (Some msg))"
    using assms(7,8) by (simp add: getProtocol_def)
  let ?t = "failed j (IllegalArgumentException (Some msg)) s"
  have st: "step env (Run j) s = Some ?t"
    using assms(2-6) gp by (simp add: step_def runJob_def)
  have t: "protocolState ?t = DISCONNECTED" "protocol ?t = None" "uncaught ?t = None"
    "\<not> killed ?t" "jobs ?t ! j = Completed" "protocolCache ?t = protocolCache s"
    "clientMessengers ?t = clientMessengers s" "trace ?t = trace s"
    "pendingErrors ?t = pendingErrors s @ [msg]"
    using assms(2-4)
    by (simp_all add: failed_def connectionExceptionHandler_def ended_def setTask_def
        onError_def messageOrToString_def)
  from sendErrors_drain[OF t(9) t(4) t(3), of env] obtain u where u:
    "run env (replicate (length (pendingErrors s @ [msg])) SendError) ?t = Some u"
    "pendingErrors u = []"
    "trace u = trace ?t @ map (\<lambda>m. Sent (map fst (clientMessengers ?t)) (ERROR m))
                             (pendingErrors s @ [msg])"
    "protocolState u = protocolState ?t" "protocol u = protocol ?t"
    "uncaught u = None" "\<not> killed u" "jobs u = jobs ?t"
    by blast
  have r: "run env (Run j # replicate (Suc (length (pendingErrors s))) SendError) s = Some u"
    using st u(1) by simp
  have "\<exists>u. run env (Run j # replicate (Suc (length (pendingErrors s))) SendError) s = Some u
           \<and> protocolState u = DISCONNECTED \<and> protocol u = None
           \<and> uncaught u = None \<and> \<not> killed u \<and> jobs u ! j = Completed
           \<and> pendingErrors u = []
           \<and> trace u = trace s @ map (\<lambda>m. Sent (map fst (clientMessengers s)) (ERROR m))
                                      (pendingErrors s @ [msg])"
    using r u(2-8) t by (intro exI[of _ u]) simp
  with gp st t show ?thesis by blast
qed

theorem unsupported_protocol_fails_connect_witness:
  "reachable demoPlatform resolvingService
   \<and> \<not> killed resolvingService \<and> uncaught resolvingService = None
   \<and> 0 < length (jobs resolvingService)
   \<and> jobs resolvingService ! 0 = ConnGetProtocol [(''protocol'', JString ''unknown'')]
   \<and> getString [(''protocol'', JString ''unknown'')] ''protocol'' = Inr ''unknown''
   \<and> newProtocol ''unknown'' = None
   \<and> clientMessengers resolvingService = [(5, Some ''Activity'')]
   \<and> pendingErrors resolvingService = []
   \<and> trace resolvingService = []
   \<and> map_option trace (run demoPlatform [Run 0, SendError] resolvingService)
        = Some [Sent [5] (ERROR (''Protocol '' @ [CHR 0x27] @ ''unknown'' @ [CHR 0x27] @ '' not found''))]
   \<and> getProtocol ''unknown'' resolvingService
        = Inl (IllegalArgumentException (Some (''Protocol '' @ [CHR 0x27] @ ''unknown'' @ [CHR 0x27] @ '' not found'')))
   \<and> (\<exists>t. step demoPlatform (Run 0) resolvingService = Some t
           \<and> protocolState t = DISCONNECTED \<and> protocol t = None
           \<and> uncaught t = None \<and> \<not> killed t \<and> jobs t ! 0 = Completed
           \<and> protocolCache t = protocolCache resolvingService
           \<and> clientMessengers t = clientMessengers resolvingService
           \<and> trace t = trace resolvingService
           \<and> pendingErrors t = pendingErrors resolvingService
                @ [''Protocol '' @ [CHR 0x27] @ ''unknown'' @ [CHR 0x27] @ '' not found''])
   \<and> (\<exists>u. run demoPlatform
               (Run 0 # replicate (Suc (length (pendingErrors resolvingService))) SendError)
               resolvingService = Some u
           \<and> protocolState u = DISCONNECTED \<and> protocol u = None
           \<and> uncaught u = None \<and> \<not> killed u \<and> jobs u ! 0 = Completed
           \<and> pendingErrors u = []
           \<and> trace u = trace resolvingService
               @ map (\<lambda>m. Sent (map fst (clientMessengers resolvingService)) (ERROR m))
                   (pendingErrors resolvingService
                      @ [''Protocol '' @ [CHR 0x27] @ ''unknown'' @ [CHR 0x27] @ '' not found'']))"
proof -
  have h1: "reachable demoPlatform resolvingService"
    unfolding resolvingService_def by (rule exec_reachable) (rule reachable.created)
  have h2: "\<not> killed resolvingService" by code_simp
  have h3: "uncaught resolvingService = None" by code_simp
  have h4: "0 < length (jobs resolvingService)" by code_simp
  have h5: "jobs resolvingService ! 0 = ConnGetProtocol [(''protocol'', JString ''unknown'')]"
    by code_simp
  have h6: "getString [(''protocol'', JString ''unknown'')] ''protocol'' = Inr ''unknown''"
    by code_simp
  have h7: "newProtocol ''unknown'' = None" by code_simp
  have h8: "clientMessengers resolvingService = [(5, Some ''Activity'')]" by code_simp
  have h9: "pendingErrors resolvingService = []" by code_simp
  have h10: "trace resolvingService = []" by code_simp
  have h11: "map_option trace (run demoPlatform [Run 0, SendError] resolvingService)
        = Some [Sent [5] (ERROR (''Protocol '' @ [CHR 0x27] @ ''unknown'' @ [CHR 0x27] @ '' not found''))]"
    by code_simp
  show ?thesis
    using h1 h2 h3 h4 h5 h6 h7 h8 h9 h10 h11
      unsupported_protocol_fails_connect[OF h1 h2 h3 h4 h5 h6 h7 refl]
    by blast
qed



text \<open>
  Claim C6, as amended: for a connect that is past the guard on \<^verbatim>\<open>CONNECTED\<close> and
  \<^verbatim>\<open>CONNECTING\<close>, when the parse fails, no name and the index -1 are written over the
  persisted descriptive fields; when the parse succeeds and the description is a string or
  absent and the index an integer or absent, the description and the index of the config
  are written, -1 for an absent index.
\<close>

theorem descriptive_fields_written_on_every_attempt:
  assumes "protocolState s \<noteq> CONNECTED" "protocolState s \<noteq> CONNECTING"
  shows "(isBlank v \<or> (\<exists>m. jsonObject env v = Inl m) \<longrightarrow>
           (\<exists>t. connectToVpn env v s = Inr t
              \<and> prefs t = (prefs s)(PREFS_SERVER_NAME := None,
                                     PREFS_SERVER_INDEX \<mapsto> PrefInt (- 1))))
       \<and> (\<forall>c n i. \<not> isBlank v \<and> jsonObject env v = Inr c
             \<and> asString (opt c ''description'') = Inr n
             \<and> asInt (opt c ''serverIndex'') = Inr i \<longrightarrow>
           (\<exists>t. connectToVpn env v s = Inr t
              \<and> prefs t = (prefs s)(PREFS_SERVER_NAME := map_option PrefString n,
                    PREFS_SERVER_INDEX \<mapsto> PrefInt (case i of None \<Rightarrow> - 1 | Some k \<Rightarrow> k))))"
  using assms
  by (auto simp: connectToVpn_def isConnected_def parseConfigToJson_def saveServerData_def
        checkPermission_def Let_def onError_def asString_def asInt_def Prefs_save_def launch_def
        split: option.splits)

theorem descriptive_fields_written_on_every_attempt_witness:
  "protocolState (onCreate savedPrefs True) \<noteq> CONNECTED
   \<and> protocolState (onCreate savedPrefs True) \<noteq> CONNECTING
   \<and> isBlank ''  ''
   \<and> (\<exists>t. connectToVpn demoPlatform ''  '' (onCreate savedPrefs True) = Inr t
          \<and> prefs t = (prefs (onCreate savedPrefs True))(PREFS_SERVER_NAME := None,
                                     PREFS_SERVER_INDEX \<mapsto> PrefInt (- 1)))
   \<and> \<not> isBlank ''E''
   \<and> jsonObject demoPlatform ''E''
        = Inr [(''protocol'', JString ''wireguard''), (''description'', JString ''office''),
               (''serverIndex'', JInt 2)]
   \<and> asString (opt [(''protocol'', JString ''wireguard''), (''description'', JString ''office''),
                     (''serverIndex'', JInt 2)] ''description'') = Inr (Some ''office'')
   \<and> asInt (opt [(''protocol'', JString ''wireguard''), (''description'', JString ''office''),
                  (''serverIndex'', JInt 2)] ''serverIndex'') = Inr (Some 2)
   \<and> (\<exists>t. connectToVpn demoPlatform ''E'' (onCreate savedPrefs True) = Inr t
          \<and> prefs t = (prefs (onCreate savedPrefs True))
                (PREFS_SERVER_NAME := map_option PrefString (Some ''office''),
                 PREFS_SERVER_INDEX \<mapsto> PrefInt (case Some 2 of None \<Rightarrow> - 1 | Some k \<Rightarrow> k)))
   \<and> prefs (ended (connectToVpn demoPlatform ''E'' (onCreate savedPrefs True))) PREFS_SERVER_NAME
        = Some (PrefString ''office'')
   \<and> prefs (ended (connectToVpn demoPlatform ''E'' (onCreate savedPrefs True))) PREFS_SERVER_INDEX
        = Some (PrefInt 2)"
proof -
  let ?E = "[(''protocol'', JString ''wireguard''), (''description'', JString ''office''),
             (''serverIndex'', JInt 2)]"
  have h1: "protocolState (onCreate savedPrefs True) \<noteq> CONNECTED" by code_simp
  have h2: "protocolState (onCreate savedPrefs True) \<noteq> CONNECTING" by code_simp
  have b1: "isBlank ''  ''" by code_simp
  have b2: "\<not> isBlank ''E''" by code_simp
  have p: "jsonObject demoPlatform ''E'' = Inr ?E"
    by (simp add: demoPlatform_def)
  have d: "asString (opt ?E ''description'') = Inr (Some ''office'')"
    by (simp add: asString_def opt_def)
  have i: "asInt (opt ?E ''serverIndex'') = Inr (Some 2)"
    by (simp add: asInt_def opt_def)
  have e1: "prefs (ended (connectToVpn demoPlatform ''E'' (onCreate savedPrefs True)))
              PREFS_SERVER_NAME = Some (PrefString ''office'')"
    by code_simp
  have e2: "prefs (ended (connectToVpn demoPlatform ''E'' (onCreate savedPrefs True)))
              PREFS_SERVER_INDEX = Some (PrefInt 2)"
    by code_simp
  note th = descriptive_fields_written_on_every_attempt[OF h1 h2]
  from th[of "''  ''" demoPlatform] b1
  have f: "\<exists>t. connectToVpn demoPlatform ''  '' (onCreate savedPrefs True) = Inr t
          \<and> prefs t = (prefs (onCreate savedPrefs True))(PREFS_SERVER_NAME := None,
                                     PREFS_SERVER_INDEX \<mapsto> PrefInt (- 1))"
    by blast
  from th[of "''E''" demoPlatform] b2 p d i
  have g: "\<exists>t. connectToVpn demoPlatform ''E'' (onCreate savedPrefs True) = Inr t
          \<and> prefs t = (prefs (onCreate savedPrefs True))
                (PREFS_SERVER_NAME := map_option PrefString (Some ''office''),
                 PREFS_SERVER_INDEX \<mapsto> PrefInt (case Some 2 of None \<Rightarrow> - 1 | Some k \<Rightarrow> k))"
    by blast
  show ?thesis using h1 h2 b1 b2 p d i f g e1 e2 by blast
qed

text \<open>
  Claim C6 as stated fails: with a name and an index persisted by an earlier connect, a
  connect whose config is not JSON returns with no name and the index -1 persisted.
\<close>

theorem failed_parse_overwrites_descriptive_fields:
  "prefs (onCreate savedPrefs True) PREFS_SERVER_NAME = Some (PrefString ''home'')
   \<and> prefs (onCreate savedPrefs True) PREFS_SERVER_INDEX = Some (PrefInt 3)
   \<and> fst (parseConfigToJson demoPlatform ''not json'' (onCreate savedPrefs True)) = None
   \<and> uncaught (ended (connect demoPlatform (Some ''not json'') (onCreate savedPrefs True))) = None
   \<and> prefs (ended (connect demoPlatform (Some ''not json'') (onCreate savedPrefs True)))
        PREFS_SERVER_NAME = None
   \<and> prefs (ended (connect demoPlatform (Some ''not json'') (onCreate savedPrefs True)))
        PREFS_SERVER_INDEX = Some (PrefInt (- 1))"
  by code_simp

text \<open>
  Claim C7, as amended: a register request inserts or overwrites the entry of the client
  and does nothing else, whatever the name and the state: \<^verbatim>\<open>launchSendingStatistics\<close> has
  no body. In every reachable state no statistics job has been created and no
  \<^verbatim>\<open>STATISTICS_UPDATE\<close> has been sent.
\<close>

theorem register_arms_nothing:
  assumes "reachable env s"
  shows "handleMessage env (REGISTER_CLIENT clientName) replyTo s =
           Inr (s\<lparr>clientMessengers := AList.update replyTo clientName (clientMessengers s)\<rparr>)
     \<and> statisticsSendingJob s = None \<and> \<not> list_ex isStatistics (trace s)"
  using reachable_noStatistics[OF assms]
  by (simp add: handleMessage_def launchSendingStatistics_def noStatistics_def Let_def)

theorem register_arms_nothing_witness:
  "reachable demoPlatform connectedService
   \<and> protocolState connectedService = CONNECTED
   \<and> handleMessage demoPlatform (REGISTER_CLIENT (Some ''Activity'')) 5 connectedService =
           Inr (connectedService\<lparr>clientMessengers :=
                  AList.update 5 (Some ''Activity'') (clientMessengers connectedService)\<rparr>)
   \<and> statisticsSendingJob connectedService = None
   \<and> \<not> list_ex isStatistics (trace connectedService)"
proof -
  have r: "reachable demoPlatform connectedService"
    unfolding connectedService_def by (rule exec_reachable) (rule reachable.created)
  have c: "protocolState connectedService = CONNECTED" by code_simp
  show ?thesis
    using r c register_arms_nothing[OF r, of "Some ''Activity''" 5] by blast
qed

text \<open>
  Claim C7 as stated fails: the activity registers while the state is \<^verbatim>\<open>CONNECTED\<close>;
  afterwards \<^verbatim>\<open>statisticsSendingJob\<close> is still null and no \<^verbatim>\<open>STATISTICS_UPDATE\<close> was sent.
\<close>

theorem register_when_connected_starts_no_statistics:
  "map_option protocolState (run demoPlatform (butlast lateRegisterRun) (onCreate Map.empty True))
     = Some CONNECTED
   \<and> last lateRegisterRun = Message (REGISTER_CLIENT (Some (ACTIVITY_MESSENGER_NAME demoPlatform))) 5
   \<and> map_option protocolState (run demoPlatform lateRegisterRun (onCreate Map.empty True))
     = Some CONNECTED
   \<and> map_option clientMessengers (run demoPlatform lateRegisterRun (onCreate Map.empty True))
     = Some [(5, Some ''Activity'')]
   \<and> map_option statisticsSendingJob (run demoPlatform lateRegisterRun (onCreate Map.empty True))
     = Some None
   \<and> map_option trace (run demoPlatform lateRegisterRun (onCreate Map.empty True))
     = Some [Initialized Wireguard, StartVpnCalled 0 Wireguard, StartVpnReturned 0,
             Sent [] (STATUS_CHANGED CONNECTED)]"
  by code_simp

text \<open>
  Claim C8: a connectivity change calls \<^verbatim>\<open>reconnect\<close>, which changes the service if and
  only if the state is \<^verbatim>\<open>CONNECTED\<close>; then it sets the state to \<^verbatim>\<open>RECONNECTING\<close> and
  launches one coroutine. When that coroutine runs, it calls \<^verbatim>\<open>reconnectVpn\<close> of the active
  protocol instance (if there is one) and leaves the active instance and the cache as
  they are: nothing is resolved through \<^verbatim>\<open>getProtocol\<close>.
\<close>

theorem reconnect_only_when_connected:
  assumes "j < length (jobs u)" "jobs u ! j = ReconReconnectVpn"
  shows "step env NetworkChanged s =
           (if killed s \<or> uncaught s \<noteq> None then None else Some (reconnect s))
     \<and> reconnect s =
          (if protocolState s = CONNECTED
           then s\<lparr>protocolState := RECONNECTING, jobs := jobs s @ [ReconReconnectVpn],
                   connectionJob := Some (length (jobs s))\<rparr>
           else s)
     \<and> (\<exists>t. runJob j u = Some t \<and> protocol t = protocol u
            \<and> protocolCache t = protocolCache u
            \<and> trace t = trace u @ (case protocol u of
                                      None \<Rightarrow> []
                                    | Some p \<Rightarrow> [ReconnectVpnCalled j p]))"
  using assms
  by (auto simp: step_def onNetworkChanged_def reconnect_def isConnected_def launch_def runJob_def setTask_def
      split: option.splits)

theorem reconnect_only_when_connected_witness:
  "1 < length (jobs (reconnect connectedService))
   \<and> jobs (reconnect connectedService) ! 1 = ReconReconnectVpn
   \<and> protocolState connectedService = CONNECTED
   \<and> protocol (reconnect connectedService) = Some Wireguard
   \<and> step demoPlatform NetworkChanged connectedService =
           (if killed connectedService \<or> uncaught connectedService \<noteq> None then None
            else Some (reconnect connectedService))
   \<and> reconnect connectedService =
          (if protocolState connectedService = CONNECTED
           then connectedService\<lparr>protocolState := RECONNECTING,
                   jobs := jobs connectedService @ [ReconReconnectVpn],
                   connectionJob := Some (length (jobs connectedService))\<rparr>
           else connectedService)
   \<and> (\<exists>t. runJob 1 (reconnect connectedService) = Some t
          \<and> protocol t = protocol (reconnect connectedService)
          \<and> protocolCache t = protocolCache (reconnect connectedService)
          \<and> trace t = trace (reconnect connectedService)
               @ (case protocol (reconnect connectedService) of
                    None \<Rightarrow> []
                  | Some p \<Rightarrow> [ReconnectVpnCalled 1 p]))"
proof -
  have h1: "1 < length (jobs (reconnect connectedService))" by code_simp
  have h2: "jobs (reconnect connectedService) ! 1 = ReconReconnectVpn" by code_simp
  have h3: "protocolState connectedService = CONNECTED" by code_simp
  have h4: "protocol (reconnect connectedService) = Some Wireguard" by code_simp
  show ?thesis
    using h1 h2 h3 h4
      reconnect_only_when_connected[OF h1 h2, of demoPlatform connectedService]
    by blast
qed

text \<open>
  Claim C9, as amended: in every reachable state in which the collector has handled the
  current connection state, the network listener is bound when that state is
  \<^verbatim>\<open>CONNECTED\<close> and unbound when it is \<^verbatim>\<open>DISCONNECTED\<close> or \<^verbatim>\<open>DISCONNECTING\<close>. In
  \<^verbatim>\<open>RECONNECTING\<close> and \<^verbatim>\<open>CONNECTING\<close> the handler leaves the binding as it finds it.
\<close>

theorem listener_binding_after_handling:
  assumes "reachable env s" "protocolState s = collected s"
    and "protocolState s = CONNECTED \<or> protocolState s = DISCONNECTED
           \<or> protocolState s = DISCONNECTING"
  shows "networkListenerBound s \<longleftrightarrow> protocolState s = CONNECTED"
  using reachable_handled[OF assms(1)] assms(2,3) by (auto simp: handled_def)

theorem listener_binding_after_handling_witness:
  "reachable demoPlatform connectedService
   \<and> protocolState connectedService = collected connectedService
   \<and> (protocolState connectedService = CONNECTED \<or> protocolState connectedService = DISCONNECTED
           \<or> protocolState connectedService = DISCONNECTING)
   \<and> (networkListenerBound connectedService \<longleftrightarrow> protocolState connectedService = CONNECTED)
   \<and> reachable demoPlatform awaitingService
   \<and> protocolState awaitingService = collected awaitingService
   \<and> (protocolState awaitingService = CONNECTED \<or> protocolState awaitingService = DISCONNECTED
           \<or> protocolState awaitingService = DISCONNECTING)
   \<and> (networkListenerBound awaitingService \<longleftrightarrow> protocolState awaitingService = CONNECTED)"
proof -
  have r1: "reachable demoPlatform connectedService"
    unfolding connectedService_def by (rule exec_reachable) (rule reachable.created)
  have r2: "reachable demoPlatform awaitingService"
    unfolding awaitingService_def by (rule exec_reachable) (rule reachable.created)
  have c1: "protocolState connectedService = collected connectedService" by code_simp
  have c2: "protocolState awaitingService = collected awaitingService" by code_simp
  have d1: "protocolState connectedService = CONNECTED \<or> protocolState connectedService = DISCONNECTED
           \<or> protocolState connectedService = DISCONNECTING" by code_simp
  have d2: "protocolState awaitingService = CONNECTED \<or> protocolState awaitingService = DISCONNECTED
           \<or> protocolState awaitingService = DISCONNECTING" by code_simp
  show ?thesis
    using r1 r2 c1 c2 d1 d2 listener_binding_after_handling[OF r1 c1 d1]
      listener_binding_after_handling[OF r2 c2 d2]
    by blast
qed

text \<open>
  Claim C9 as stated fails: after a connectivity change in state \<^verbatim>\<open>CONNECTED\<close> the state is
  \<^verbatim>\<open>RECONNECTING\<close>, the collector has handled it, and the network listener is still bound.
\<close>

theorem listener_bound_while_reconnecting:
  "map_option protocolState (run demoPlatform reconnectingRun (onCreate Map.empty True))
     = Some RECONNECTING
   \<and> map_option collected (run demoPlatform reconnectingRun (onCreate Map.empty True))
     = Some RECONNECTING
   \<and> map_option networkListenerBound (run demoPlatform reconnectingRun (onCreate Map.empty True))
     = Some True
   \<and> reachable demoPlatform (exec demoPlatform reconnectingRun (onCreate Map.empty True))
   \<and> protocolState (exec demoPlatform reconnectingRun (onCreate Map.empty True)) = RECONNECTING
   \<and> networkListenerBound (exec demoPlatform reconnectingRun (onCreate Map.empty True))"
proof -
  have "reachable demoPlatform (exec demoPlatform reconnectingRun (onCreate Map.empty True))"
    by (rule exec_reachable) (rule reachable.created)
  moreover have
    "map_option protocolState (run demoPlatform reconnectingRun (onCreate Map.empty True))
       = Some RECONNECTING"
    "map_option collected (run demoPlatform reconnectingRun (onCreate Map.empty True))
       = Some RECONNECTING"
    "map_option networkListenerBound (run demoPlatform reconnectingRun (onCreate Map.empty True))
       = Some True"
    "protocolState (exec demoPlatform reconnectingRun (onCreate Map.empty True)) = RECONNECTING"
    "networkListenerBound (exec demoPlatform reconnectingRun (onCreate Map.empty True))"
    by code_simp+
  ultimately show ?thesis by blast
qed

text \<open>
  Claim C10: when \<^verbatim>\<open>connectToVpn\<close> comes to the permission check (the state is neither
  \<^verbatim>\<open>CONNECTED\<close> nor \<^verbatim>\<open>CONNECTING\<close>, the config has parsed and its descriptive fields
  have been read) and the check fails, it returns with the state \<^verbatim>\<open>DISCONNECTED\<close>: no
  coroutine is launched, no protocol is resolved or started, no error broadcast is
  launched, and the only effect is the start of the activity that asks for the permission.
\<close>

theorem permission_denied_is_silent:
  assumes "protocolState s \<noteq> CONNECTED" "protocolState s \<noteq> CONNECTING"
    and "\<not> isBlank v" "jsonObject env v = Inr c"
    and "asString (opt c ''description'') = Inr n" "asInt (opt c ''serverIndex'') = Inr i"
    and "\<not> prepared s"
  shows "\<exists>t. connectToVpn env v s = Inr t \<and> protocolState t = DISCONNECTED
          \<and> jobs t = jobs s \<and> connectionJob t = connectionJob s \<and> protocol t = protocol s
          \<and> protocolCache t = protocolCache s \<and> pendingErrors t = pendingErrors s
          \<and> trace t = trace s @ [StartActivity]"
  using assms
  by (simp add: connectToVpn_def isConnected_def parseConfigToJson_def saveServerData_def
        checkPermission_def Let_def)

theorem permission_denied_is_silent_witness:
  "protocolState (onCreate Map.empty False) \<noteq> CONNECTED
   \<and> protocolState (onCreate Map.empty False) \<noteq> CONNECTING
   \<and> \<not> isBlank ''A''
   \<and> jsonObject demoPlatform ''A'' = Inr [(''protocol'', JString ''wireguard'')]
   \<and> asString (opt [(''protocol'', JString ''wireguard'')] ''description'') = Inr None
   \<and> asInt (opt [(''protocol'', JString ''wireguard'')] ''serverIndex'') = Inr None
   \<and> \<not> prepared (onCreate Map.empty False)
   \<and> (\<exists>t. connectToVpn demoPlatform ''A'' (onCreate Map.empty False) = Inr t
          \<and> protocolState t = DISCONNECTED
          \<and> jobs t = jobs (onCreate Map.empty False)
          \<and> connectionJob t = connectionJob (onCreate Map.empty False)
          \<and> protocol t = protocol (onCreate Map.empty False)
          \<and> protocolCache t = protocolCache (onCreate Map.empty False)
          \<and> pendingErrors t = pendingErrors (onCreate Map.empty False)
          \<and> trace t = trace (onCreate Map.empty False) @ [StartActivity])"
proof -
  have h1: "protocolState (onCreate Map.empty False) \<noteq> CONNECTED" by code_simp
  have h2: "protocolState (onCreate Map.empty False) \<noteq> CONNECTING" by code_simp
  have h3: "\<not> isBlank ''A''" by code_simp
  have h4: "jsonObject demoPlatform ''A'' = Inr [(''protocol'', JString ''wireguard'')]"
    by (simp add: demoPlatform_def)
  have h5: "asString (opt [(''protocol'', JString ''wireguard'')] ''description'') = Inr None"
    by (simp add: asString_def opt_def)
  have h6: "asInt (opt [(''protocol'', JString ''wireguard'')] ''serverIndex'') = Inr None"
    by (simp add: asInt_def opt_def)
  have h7: "\<not> prepared (onCreate Map.empty False)" by code_simp
  show ?thesis
    using h1 h2 h3 h4 h5 h6 h7 permission_denied_is_silent[OF h1 h2 h3 h4 h5 h6 h7] by blast
qed

text \<open>
  Claim C1 fails on the code. In the first run a disconnect, issued while a connect
  coroutine waits in its join, calls \<^verbatim>\<open>stopVpn\<close> before that coroutine has started its
  protocol, because the coroutine of the earlier disconnect has set \<^verbatim>\<open>connectionJob\<close> to
  null; at the end coroutine 2 is inside \<^verbatim>\<open>startVpn\<close> of AmneziaWG while coroutine 3 is inside
  \<^verbatim>\<open>stopVpn\<close> of WireGuard. In the second run a connect, issued while a disconnect
  coroutine is pending, resolves and starts its protocol while that coroutine is inside
  \<^verbatim>\<open>stopVpn\<close>, because the coroutine of the earlier connect has set \<^verbatim>\<open>disconnectionJob\<close>
  to null.
\<close>

theorem join_rule_loses_jobs:
  "map_option jobs (run demoPlatform lostJobRun (onCreate Map.empty True))
     = Some [Completed, Completed, ConnInStartVpn Awg, DiscInStopVpn Wireguard]
   \<and> map_option trace (run demoPlatform lostJobRun (onCreate Map.empty True))
     = Some [Initialized Wireguard, StartVpnCalled 0 Wireguard, StartVpnReturned 0,
             StopVpnCalled 1 Wireguard, StopVpnCalled 3 Wireguard, StopVpnReturned 1,
             Initialized Awg, StartVpnCalled 2 Awg]
   \<and> map_option jobs (run demoPlatform clearedJobRun (onCreate Map.empty True))
     = Some [Completed, DiscInStopVpn Wireguard, ConnInStartVpn Awg]
   \<and> map_option trace (run demoPlatform clearedJobRun (onCreate Map.empty True))
     = Some [Initialized Wireguard, StartVpnCalled 0 Wireguard, StartVpnReturned 0,
             StopVpnCalled 1 Wireguard, Initialized Awg, StartVpnCalled 2 Awg]"
  by code_simp

end
